theory Spec2Isabelle
  imports Complex_Main
begin

section \<open>JavaScript values used by the client\<close>

text \<open>
  A string is a list of characters, read as its UTF-8 bytes. The only character the
  client names is the space, which is one byte and part of no other character. The
  built-ins \<open>trim\<close>, \<open>toUpperCase\<close> and \<open>Number\<close> are not part of the client: they are
  taken from the environment (the record \<open>remote\<close> below). The two functions that follow
  are what \<open>trim\<close> and \<open>toUpperCase\<close> do on ASCII text; they serve in the concrete
  environment at the end of the definitions and nowhere else.
\<close>

definition ascii_is_space :: "char \<Rightarrow> bool" where
  "ascii_is_space c = (c \<in> set [CHR '' '', CHR 0x09, CHR 0x0A, CHR 0x0B, CHR 0x0C, CHR 0x0D])"

definition ascii_trim :: "string \<Rightarrow> string" where
  "ascii_trim s = rev (dropWhile ascii_is_space (rev (dropWhile ascii_is_space s)))"

definition ascii_toUpperCase_char :: "char \<Rightarrow> char" where
  "ascii_toUpperCase_char c =
     (case map_of (zip ''abcdefghijklmnopqrstuvwxyz'' ''ABCDEFGHIJKLMNOPQRSTUVWXYZ'') c of
        None \<Rightarrow> c
      | Some u \<Rightarrow> u)"

definition ascii_toUpperCase :: "string \<Rightarrow> string" where
  "ascii_toUpperCase s = map ascii_toUpperCase_char s"

text \<open>\<open>s.split(' ')\<close>: the pieces between single space characters; never the empty array.\<close>

fun split_space :: "string \<Rightarrow> string list" where
  "split_space [] = [[]]"
| "split_space (c # cs) =
     (if c = CHR '' '' then [] # split_space cs
      else (case split_space cs of
              [] \<Rightarrow> [[c]]
            | t # ts \<Rightarrow> (c # t) # ts))"

text \<open>\<open>parts.join(' ')\<close>.\<close>

fun join_space :: "string list \<Rightarrow> string" where
  "join_space [] = []"
| "join_space [p] = p"
| "join_space (p # q # ps) = p @ CHR '' '' # join_space (q # ps)"

text \<open>Truthiness of a \<open>string | null\<close> value, and \<open>s || null\<close>.\<close>

definition truthy :: "string option \<Rightarrow> bool" where
  "truthy v = (case v of None \<Rightarrow> False | Some s \<Rightarrow> s \<noteq> [])"

definition or_null :: "string \<Rightarrow> string option" where
  "or_null s = (if s = [] then None else Some s)"

text \<open>\<open>data ?? []\<close>.\<close>

definition or_empty :: "'a list option \<Rightarrow> 'a list" where
  "or_empty v = (case v of None \<Rightarrow> [] | Some xs \<Rightarrow> xs)"

text \<open>A JavaScript number: the result type of \<open>Number(s)\<close>.\<close>

datatype jsnum = NaN | PosInfinity | NegInfinity | Finite real

text \<open>\<open>Number.isFinite(v)\<close> on a \<open>number | null\<close> value.\<close>

definition isFinite :: "jsnum option \<Rightarrow> bool" where
  "isFinite v = (case v of Some (Finite x) \<Rightarrow> True | _ \<Rightarrow> False)"


section \<open>Rows of the remote store (the type declarations of App.tsx)\<close>

record patient =
  p_id :: string
  p_mrn :: "string option"
  p_name :: string
  p_sex :: "string option"
  p_dob :: "string option"

record encounter =
  e_id :: string
  e_patient_id :: string
  e_arrival_at :: "string option"
  e_location :: "string option"
  e_status :: string

record note_row =
  n_id :: string
  n_encounter_id :: string
  n_note_type :: string
  n_title :: "string option"
  n_content :: string
  n_occurred_at :: string

record order_row =
  o_id :: string
  o_encounter_id :: string
  o_code :: "string option"
  o_name :: string
  o_status :: string
  o_occurred_at :: string

record result_row =
  r_id :: string
  r_encounter_id :: string
  r_category :: string
  r_code :: "string option"
  r_name :: string
  r_value :: "string option"
  r_unit :: "string option"
  r_flag :: "string option"
  r_occurred_at :: string

datatype ddx_source = Human | Ai

record ddx_entry =
  d_id :: string
  d_encounter_id :: string
  d_source :: ddx_source
  d_name :: string
  d_prob :: "jsnum option"
  d_reason :: "string option"
  d_occurred_at :: string

record ai_run =
  run_id :: string
  run_encounter_id :: string
  run_provider :: string
  run_model :: string
  run_status :: string
  run_created_at :: string

datatype suggestion_type = Diagnosis | OrderSuggestion

record ai_suggestion_row =
  s_id :: string
  s_encounter_id :: string
  s_ai_run_id :: string
  s_suggestion_type :: suggestion_type
  s_code :: "string option"
  s_name :: string
  s_prob :: "jsnum option"
  s_reason :: "string option"
  s_created_at :: string

text \<open>\<open>AiFunctionResult\<close>; a field that may be missing (\<open>?\<close>, or read with \<open>??\<close>) is optional.\<close>

record diagnosis =
  dg_name :: string
  dg_prob :: "jsnum option"
  dg_reason :: "string option"

record recommendation =
  rc_code :: "string option"
  rc_name :: string
  rc_reason :: "string option"

record ai_function_result =
  diagnoses :: "diagnosis list option"
  recommendations :: "recommendation list option"


section \<open>Requests, replies and observable effects\<close>

text \<open>The context object that \<open>runAi\<close> builds from the lists held in state.\<close>

record ai_context =
  ctx_encounter_id :: string
  ctx_notes :: "(string \<times> string option \<times> string \<times> string) list"
  ctx_orders :: "(string option \<times> string \<times> string \<times> string) list"
  ctx_results :: "(string \<times> string \<times> string option \<times> string option \<times> string option \<times> string) list"
  ctx_ddx :: "(ddx_source \<times> string \<times> jsnum option \<times> string option) list"

datatype actor = HumanActor | AiActor | SystemActor

text \<open>
  The object literals handed to \<open>insert\<close> and \<open>update\<close>, one constructor per table.
  \<open>new_order_data\<close> is the \<open>data\<close> backlink \<open>(from_ai_run_id, suggestion_id, reason)\<close> of an
  order, \<open>new_ddx_data\<close> the \<open>data.ai_run_id\<close> of an AI DDX row, \<open>new_payload\<close> the JSON
  object of an event as a list of its fields.
\<close>

datatype payload =
    PatientNew (new_name: string) (new_mrn: "string option") (new_sex: "string option")
  | EncounterNew (new_patient_id: string) (new_arrival_at: string)
      (new_location: "string option") (new_status: string)
  | NoteNew (new_encounter_id: string) (new_note_type: string) (new_title: "string option")
      (new_content: string) (new_occurred_at: string)
  | OrderNew (new_encounter_id: string) (new_code: "string option") (new_name: string)
      (new_status: string) (new_occurred_at: string)
      (new_order_data: "(string \<times> string \<times> string option) option")
  | ResultNew (new_encounter_id: string) (new_category: string) (new_name: string)
      (new_value: "string option") (new_unit: "string option") (new_flag: "string option")
      (new_occurred_at: string)
  | DdxNew (new_encounter_id: string) (new_source: ddx_source) (new_name: string)
      (new_prob: "jsnum option") (new_reason: "string option") (new_occurred_at: string)
      (new_ddx_data: "string option")
  | AiRunNew (new_encounter_id: string) (new_provider: string) (new_model: string)
      (new_status: string) (new_prompt: ai_context) (new_response: "ai_function_result option")
  | AiSuggestionNew (new_encounter_id: string) (new_ai_run_id: string)
      (new_suggestion_type: suggestion_type) (new_code: "string option") (new_name: string)
      (new_prob: "jsnum option") (new_reason: "string option")
      (new_raw: "diagnosis + recommendation")
  | PatientEventNew (new_encounter_id: string) (new_actor_type: actor) (new_event_type: string)
      (new_entity_table: "string option") (new_entity_id: "string option")
      (new_summary: "string option") (new_payload: "(string \<times> string) list")
      (new_occurred_at: string)

text \<open>What follows an \<open>insert\<close>: nothing, \<open>.select(cols)\<close>, or \<open>.select(cols).single()\<close>.\<close>

datatype returning = NoReturn | ReturnRows string | ReturnSingle string

text \<open>
  A query as the builder chain states it: \<open>from(t).select(cols)\<close> with its optional
  \<open>.eq(col, v)\<close>, \<open>.order(col, {ascending})\<close> and \<open>.limit(n)\<close>; \<open>from(t).insert(rows)\<close>;
  \<open>from(t).update(row).eq(col, v)\<close>; \<open>functions.invoke(name, {body})\<close>.
\<close>

datatype request =
    Select (from_table: string) (columns: string) (eq_filter: "(string \<times> string) option")
      (order_by: "(string \<times> bool) option") (limit_to: "nat option")
  | Insert string "payload list" returning
  | Update string payload "string \<times> string"
  | Invoke string ai_context

text \<open>
  The alerts of the client. Each constructor stands for the fixed text the source puts
  before the error's message (the texts are not ASCII); the argument is the message.
\<close>

datatype alert =
    CreatePatientFailed string
  | CreateEncounterFailed string
  | UpdateNoteFailed string
  | InsertNoteFailed string
  | InsertOrderFailed string
  | InsertResultFailed string
  | InsertDdxFailed string
  | AiAnalyzeFailed string
  | AiRunsSaveFailed string
  | AiSuggestionsSaveFailed string
  | AiConnectionFailed
  | ApplyAiOrdersFailed string

text \<open>
  What the client does to the outside: a request to the store or the AI function, an
  \<open>alert\<close>, a \<open>console.error(label, error)\<close>, or the \<open>console.error(e)\<close> of a catch block.
\<close>

datatype effect =
    Req request
  | Alert alert
  | ConsoleError string string
  | ConsoleException

text \<open>
  What an awaited call gives back: the promise rejects, or it resolves to
  \<open>{ data, error }\<close>, either of which may be null; an error is its message.
\<close>

datatype 'a reply = Rejected | Resolved (reply_data: "'a option") (reply_error: "string option")

text \<open>
  The store, the AI function, the clock and the built-in conversions are not part of the
  client: they are a parameter. A reply may depend on everything the client has done so
  far, the request being answered last. \<open>toISOString\<close> is \<open>new Date(s).toISOString()\<close>,
  which throws a RangeError (\<open>None\<close>) on an invalid date; \<open>now\<close> is
  \<open>new Date().toISOString()\<close>, one value between two effects; \<open>trim\<close>,
  \<open>toUpperCase\<close> and \<open>Number\<close> are the built-ins \<open>s.trim()\<close>, \<open>s.toUpperCase()\<close> and
  \<open>Number(s)\<close>.
\<close>

record remote =
  now :: "effect list \<Rightarrow> string"
  toISOString :: "string \<Rightarrow> string option"
  trim :: "string \<Rightarrow> string"
  toUpperCase :: "string \<Rightarrow> string"
  Number :: "string \<Rightarrow> jsnum"
  patients_of :: "effect list \<Rightarrow> patient list reply"
  encounters_of :: "effect list \<Rightarrow> encounter list reply"
  notes_of :: "effect list \<Rightarrow> note_row list reply"
  orders_of :: "effect list \<Rightarrow> order_row list reply"
  results_of :: "effect list \<Rightarrow> result_row list reply"
  ddx_of :: "effect list \<Rightarrow> ddx_entry list reply"
  ai_runs_of :: "effect list \<Rightarrow> ai_run list reply"
  ai_suggestions_of :: "effect list \<Rightarrow> ai_suggestion_row list reply"
  inserted_patient :: "effect list \<Rightarrow> patient reply"
  inserted_encounter :: "effect list \<Rightarrow> encounter reply"
  inserted_note :: "effect list \<Rightarrow> note_row reply"
  inserted_order :: "effect list \<Rightarrow> order_row reply"
  inserted_result :: "effect list \<Rightarrow> result_row reply"
  inserted_ddx :: "effect list \<Rightarrow> ddx_entry reply"
  inserted_ai_run :: "effect list \<Rightarrow> ai_run reply"
  inserted_ids :: "effect list \<Rightarrow> string list reply"
  written :: "effect list \<Rightarrow> unit reply"
  audit_written :: "effect list \<Rightarrow> unit reply"
  invoked :: "effect list \<Rightarrow> ai_function_result reply"


section \<open>The state of the App component\<close>

record editing_note =
  en_id :: "string option"
  en_note_type :: string
  en_title :: string
  en_content :: string
  en_occurred_at :: string

record app_state =
  patients :: "patient list"
  selectedPatientId :: "string option"
  encounters :: "encounter list"
  selectedEncounterId :: "string option"
  notes_state :: "note_row list"
  orders :: "order_row list"
  results :: "result_row list"
  ddx :: "ddx_entry list"
  isBusy :: bool
  isPatientModalOpen :: bool
  newPatientName :: string
  newPatientMrn :: string
  newPatientSex :: string
  newEncounterLocation :: string
  newEncounterArrivalAt :: string
  editingNote :: "editing_note option"
  orderInput :: string
  resultCategory :: string
  resultName :: string
  resultValue :: string
  resultUnit :: string
  resultFlag :: string
  ddxName :: string
  ddxProb :: string
  ddxReason :: string
  isAiLoading :: bool
  latestAiRun :: "ai_run option"
  aiSuggestions :: "ai_suggestion_row list"
  selectedAiOrderSuggestionIds :: "string list"

text \<open>The component's state together with everything it has done to the outside so far.\<close>

record world =
  ui :: app_state
  trace :: "effect list"

text \<open>How a handler ends: it returns, or an exception leaves it.\<close>

datatype outcome = Returned | Thrown

definition set_ui :: "(app_state \<Rightarrow> app_state) \<Rightarrow> world \<Rightarrow> world" where
  "set_ui f w = w\<lparr>ui := f (ui w)\<rparr>"

definition emit :: "effect \<Rightarrow> world \<Rightarrow> world" where
  "emit e w = w\<lparr>trace := trace w @ [e]\<rparr>"

definition send :: "(effect list \<Rightarrow> 'a reply) \<Rightarrow> request \<Rightarrow> world \<Rightarrow> 'a reply \<times> world" where
  "send oracle rq w = (let w' = emit (Req rq) w in (oracle (trace w'), w'))"

text \<open>\<open>if (res.error) console.error(label, res.error)\<close>.\<close>

definition console_error_if :: "string \<Rightarrow> string option \<Rightarrow> world \<Rightarrow> world" where
  "console_error_if label err w =
     (case err of None \<Rightarrow> w | Some e \<Rightarrow> emit (ConsoleError label e) w)"


section \<open>Audit logging and the fetches\<close>

record event_args =
  ev_encounter_id :: string
  ev_actor_type :: actor
  ev_event_type :: string
  ev_entity_table :: "string option"
  ev_entity_id :: "string option"
  ev_summary :: "string option"
  ev_payload :: "(string \<times> string) list option"
  ev_occurred_at :: "string option"

text \<open>
  \<open>logEvent\<close>: the insert is awaited inside \<open>try { ... } catch { }\<close> and its result is not
  read, so a rejected promise and a resolved \<open>{ error }\<close> end the same way.
\<close>

definition logEvent :: "remote \<Rightarrow> event_args \<Rightarrow> world \<Rightarrow> world" where
  "logEvent env args w =
     (case send (audit_written env)
             (Insert ''patient_events''
                [PatientEventNew (ev_encounter_id args) (ev_actor_type args) (ev_event_type args)
                   (ev_entity_table args) (ev_entity_id args) (ev_summary args)
                   (case ev_payload args of None \<Rightarrow> [] | Some p \<Rightarrow> p)
                   (case ev_occurred_at args of None \<Rightarrow> now env (trace w) | Some t \<Rightarrow> t)]
                NoReturn) w of
        (Rejected, w1) \<Rightarrow> w1
      | (Resolved data error, w1) \<Rightarrow> w1)"

definition fetchPatients :: "remote \<Rightarrow> world \<Rightarrow> outcome \<times> world" where
  "fetchPatients env w =
     (case send (patients_of env)
             (Select ''patients'' ''id,mrn,name,sex,dob'' None (Some (''created_at'', False)) None) w of
        (Rejected, w1) \<Rightarrow> (Thrown, w1)
      | (Resolved data error, w1) \<Rightarrow>
          (case error of
             Some e \<Rightarrow> (Returned, emit (ConsoleError ''fetchPatients failed:'' e) w1)
           | None \<Rightarrow> (Returned, set_ui (\<lambda>s. s\<lparr>patients := or_empty data\<rparr>) w1)))"

definition fetchEncounters :: "remote \<Rightarrow> string \<Rightarrow> world \<Rightarrow> outcome \<times> world" where
  "fetchEncounters env patientId w =
     (case send (encounters_of env)
             (Select ''encounters'' ''id,patient_id,arrival_at,location,status''
                (Some (''patient_id'', patientId)) (Some (''created_at'', False)) None) w of
        (Rejected, w1) \<Rightarrow> (Thrown, w1)
      | (Resolved data error, w1) \<Rightarrow>
          (case error of
             Some e \<Rightarrow> (Returned, emit (ConsoleError ''fetchEncounters failed:'' e) w1)
           | None \<Rightarrow> (Returned, set_ui (\<lambda>s. s\<lparr>encounters := or_empty data\<rparr>) w1)))"

text \<open>
  \<open>fetchEncounterData\<close>: the four selects are issued together (\<open>Promise.all\<close>); if one of
  them rejects the whole rejects, and \<open>finally\<close> resets \<open>isBusy\<close> either way.
\<close>

definition fetchEncounterData :: "remote \<Rightarrow> string \<Rightarrow> world \<Rightarrow> outcome \<times> world" where
  "fetchEncounterData env encounterId w =
     (let w0 = set_ui (\<lambda>s. s\<lparr>isBusy := True\<rparr>) w;
          (notesRes, w1) = send (notes_of env)
             (Select ''notes'' ''*'' (Some (''encounter_id'', encounterId))
                (Some (''occurred_at'', False)) None) w0;
          (ordersRes, w2) = send (orders_of env)
             (Select ''orders'' ''*'' (Some (''encounter_id'', encounterId))
                (Some (''occurred_at'', False)) None) w1;
          (resultsRes, w3) = send (results_of env)
             (Select ''results'' ''*'' (Some (''encounter_id'', encounterId))
                (Some (''occurred_at'', False)) None) w2;
          (ddxRes, w4) = send (ddx_of env)
             (Select ''ddx_entries'' ''*'' (Some (''encounter_id'', encounterId))
                (Some (''occurred_at'', False)) None) w3
      in if notesRes = Rejected \<or> ordersRes = Rejected \<or> resultsRes = Rejected \<or> ddxRes = Rejected
         then (Thrown, set_ui (\<lambda>s. s\<lparr>isBusy := False\<rparr>) w4)
         else
           (let w5 = console_error_if ''fetch notes failed:'' (reply_error notesRes) w4;
                w6 = console_error_if ''fetch orders failed:'' (reply_error ordersRes) w5;
                w7 = console_error_if ''fetch results failed:'' (reply_error resultsRes) w6;
                w8 = console_error_if ''fetch ddx failed:'' (reply_error ddxRes) w7;
                w9 = set_ui (\<lambda>s. s\<lparr>notes_state := or_empty (reply_data notesRes),
                                     orders := or_empty (reply_data ordersRes),
                                     results := or_empty (reply_data resultsRes),
                                     ddx := or_empty (reply_data ddxRes)\<rparr>) w8
            in (Returned, set_ui (\<lambda>s. s\<lparr>isBusy := False\<rparr>) w9)))"

definition fetchLatestAi :: "remote \<Rightarrow> string \<Rightarrow> world \<Rightarrow> outcome \<times> world" where
  "fetchLatestAi env encounterId w =
     (case send (ai_runs_of env)
             (Select ''ai_runs'' ''id,encounter_id,provider,model,status,created_at''
                (Some (''encounter_id'', encounterId)) (Some (''created_at'', False)) (Some 1)) w of
        (Rejected, w1) \<Rightarrow> (Thrown, w1)
      | (Resolved runData runErr, w1) \<Rightarrow>
          (case runErr of
             Some e \<Rightarrow>
               (Returned, set_ui (\<lambda>s. s\<lparr>latestAiRun := None, aiSuggestions := []\<rparr>)
                            (emit (ConsoleError ''fetchLatestAi run failed:'' e) w1))
           | None \<Rightarrow>
               (let run = (case runData of None \<Rightarrow> None | Some [] \<Rightarrow> None | Some (r # rs) \<Rightarrow> Some r);
                    w2 = set_ui (\<lambda>s. s\<lparr>latestAiRun := run\<rparr>) w1
                in case run of
                     None \<Rightarrow> (Returned, set_ui (\<lambda>s. s\<lparr>aiSuggestions := []\<rparr>) w2)
                   | Some r \<Rightarrow>
                       (case send (ai_suggestions_of env)
                               (Select ''ai_suggestions'' ''*'' (Some (''ai_run_id'', run_id r))
                                  (Some (''created_at'', True)) None) w2 of
                          (Rejected, w3) \<Rightarrow> (Thrown, w3)
                        | (Resolved sugData sugErr, w3) \<Rightarrow>
                            (case sugErr of
                               Some e \<Rightarrow>
                                 (Returned, set_ui (\<lambda>s. s\<lparr>aiSuggestions := []\<rparr>)
                                    (emit (ConsoleError ''fetchLatestAi suggestions failed:'' e) w3))
                             | None \<Rightarrow>
                                 (Returned, set_ui (\<lambda>s. s\<lparr>aiSuggestions := or_empty sugData\<rparr>) w3))))))"


section \<open>The effects of the component\<close>

text \<open>
  The body of \<open>useEffect(..., [selectedPatientId])\<close>, run with the identifier of the render
  it belongs to. A fetch started by an effect is not awaited: its rejection goes nowhere.
\<close>

definition patient_effect :: "remote \<Rightarrow> string option \<Rightarrow> world \<Rightarrow> world" where
  "patient_effect env pid w =
     (case pid of
        None \<Rightarrow> set_ui (\<lambda>s. s\<lparr>encounters := [], selectedEncounterId := None\<rparr>) w
      | Some p \<Rightarrow>
          if p = [] then set_ui (\<lambda>s. s\<lparr>encounters := [], selectedEncounterId := None\<rparr>) w
          else snd (fetchEncounters env p w))"

text \<open>
  The body of \<open>useEffect(..., [selectedEncounterId])\<close>. The two fetches are started one
  after the other without waiting; they write disjoint parts of the state, and the model
  runs the first to its end before the second, and both before anything else happens.
  The component itself neither waits for them nor cancels them: a reply may arrive after
  later clicks and fill the views then. The model does not follow such late replies, and
  no property below that speaks of the views relies on their absence.
\<close>

definition encounter_effect :: "remote \<Rightarrow> string option \<Rightarrow> world \<Rightarrow> world" where
  "encounter_effect env eid w =
     (if \<not> truthy eid
      then set_ui (\<lambda>s. s\<lparr>notes_state := [], orders := [], results := [], ddx := [],
                          latestAiRun := None, aiSuggestions := [],
                          selectedAiOrderSuggestionIds := []\<rparr>) w
      else snd (fetchLatestAi env (the eid) (snd (fetchEncounterData env (the eid) w))))"

text \<open>
  After a handler has changed the state the component renders again and runs, in the
  order of their declaration, the effects whose dependency differs from the previous
  render's (\<open>prev\<close>). The patient effect may clear the selected encounter, which renders
  once more and runs the encounter effect for the new value.
\<close>

definition run_effects :: "remote \<Rightarrow> app_state \<Rightarrow> world \<Rightarrow> world" where
  "run_effects env prev w =
     (let rendered = ui w;
          w1 = (if selectedPatientId rendered \<noteq> selectedPatientId prev
                then patient_effect env (selectedPatientId rendered) w else w);
          w2 = (if selectedEncounterId rendered \<noteq> selectedEncounterId prev
                then encounter_effect env (selectedEncounterId rendered) w1 else w1)
      in if selectedEncounterId (ui w2) \<noteq> selectedEncounterId rendered
         then encounter_effect env (selectedEncounterId (ui w2)) w2 else w2)"

text \<open>The initial values of the \<open>useState\<close> calls, and the first render with its effects.\<close>

definition initial_state :: app_state where
  "initial_state =
     \<lparr>patients = [], selectedPatientId = None, encounters = [], selectedEncounterId = None,
      notes_state = [], orders = [], results = [], ddx = [], isBusy = False,
      isPatientModalOpen = False, newPatientName = [], newPatientMrn = [], newPatientSex = [],
      newEncounterLocation = ''ER-012'', newEncounterArrivalAt = [], editingNote = None,
      orderInput = [], resultCategory = ''lab'', resultName = [], resultValue = [],
      resultUnit = [], resultFlag = [], ddxName = [], ddxProb = [], ddxReason = [],
      isAiLoading = False, latestAiRun = None, aiSuggestions = [],
      selectedAiOrderSuggestionIds = []\<rparr>"

definition mount :: "remote \<Rightarrow> world" where
  "mount env =
     (let w0 = \<lparr>ui = initial_state, trace = []\<rparr>;
          w1 = snd (fetchPatients env w0);
          w2 = patient_effect env None w1
      in encounter_effect env None w2)"


section \<open>Mutations: patients and encounters\<close>

definition createPatient :: "remote \<Rightarrow> world \<Rightarrow> outcome \<times> world" where
  "createPatient env w =
     (let name = trim env (newPatientName (ui w)) in
      if name = [] then (Returned, w)
      else
        (let mrn = or_null (trim env (newPatientMrn (ui w)));
             sex = or_null (trim env (newPatientSex (ui w)))
         in case send (inserted_patient env)
                   (Insert ''patients'' [PatientNew name mrn sex]
                      (ReturnSingle ''id,mrn,name,sex,dob'')) w of
              (Rejected, w1) \<Rightarrow> (Thrown, w1)
            | (Resolved data error, w1) \<Rightarrow>
                (case error of
                   Some e \<Rightarrow>
                     (Returned, emit (Alert (CreatePatientFailed e))
                                  (emit (ConsoleError ''createPatient failed:'' e) w1))
                 | None \<Rightarrow>
                     (let w2 = set_ui (\<lambda>s. s\<lparr>isPatientModalOpen := False, newPatientName := [],
                                              newPatientMrn := [], newPatientSex := []\<rparr>) w1
                      in case fetchPatients env w2 of
                           (Thrown, w3) \<Rightarrow> (Thrown, w3)
                         | (Returned, w3) \<Rightarrow>
                             (case data of
                                None \<Rightarrow> (Thrown, w3)
                              | Some p \<Rightarrow>
                                  (Returned,
                                   set_ui (\<lambda>s. s\<lparr>selectedPatientId := Some (p_id p)\<rparr>) w3))))))"

definition createEncounter :: "remote \<Rightarrow> world \<Rightarrow> outcome \<times> world" where
  "createEncounter env w =
     (case selectedPatientId (ui w) of
        None \<Rightarrow> (Returned, w)
      | Some pid \<Rightarrow>
          if pid = [] then (Returned, w)
          else
            (case (if trim env (newEncounterArrivalAt (ui w)) \<noteq> []
                   then toISOString env (newEncounterArrivalAt (ui w))
                   else Some (now env (trace w))) of
               None \<Rightarrow> (Thrown, w)
             | Some arrival_at \<Rightarrow>
                 (let location = or_null (trim env (newEncounterLocation (ui w)))
                  in case send (inserted_encounter env)
                            (Insert ''encounters'' [EncounterNew pid arrival_at location ''active'']
                               (ReturnSingle ''id,patient_id,arrival_at,location,status'')) w of
                       (Rejected, w1) \<Rightarrow> (Thrown, w1)
                     | (Resolved data error, w1) \<Rightarrow>
                         (case error of
                            Some e \<Rightarrow>
                              (Returned, emit (Alert (CreateEncounterFailed e))
                                           (emit (ConsoleError ''createEncounter failed:'' e) w1))
                          | None \<Rightarrow>
                              (case fetchEncounters env pid w1 of
                                 (Thrown, w2) \<Rightarrow> (Thrown, w2)
                               | (Returned, w2) \<Rightarrow>
                                   (case data of
                                      None \<Rightarrow> (Thrown, w2)
                                    | Some e \<Rightarrow>
                                        (Returned,
                                         set_ui (\<lambda>s. s\<lparr>selectedEncounterId := Some (e_id e)\<rparr>)
                                           w2)))))))"


section \<open>Mutations: notes, orders, results, DDX\<close>

text \<open>
  \<open>saveNote\<close>, last piece first. Lines 431 and 432, which both branches reach: close the
  modal and reload.
\<close>

definition saveNote_finish :: "remote \<Rightarrow> string \<Rightarrow> world \<Rightarrow> outcome \<times> world" where
  "saveNote_finish env eid w =
     fetchEncounterData env eid (set_ui (\<lambda>s. s\<lparr>editingNote := None\<rparr>) w)"

text \<open>Lines 400 to 413: the note has an id and is updated.\<close>

definition saveNote_update ::
  "remote \<Rightarrow> string \<Rightarrow> string \<Rightarrow> payload \<Rightarrow> world \<Rightarrow> outcome \<times> world" where
  "saveNote_update env eid noteId payload w =
     (case send (written env) (Update ''notes'' payload (''id'', noteId)) w of
        (Rejected, w1) \<Rightarrow> (Thrown, w1)
      | (Resolved data error, w1) \<Rightarrow>
          (case error of
             Some e \<Rightarrow>
               (Returned, emit (Alert (UpdateNoteFailed e))
                            (emit (ConsoleError ''update note failed:'' e) w1))
           | None \<Rightarrow>
               saveNote_finish env eid
                 (logEvent env
                    \<lparr>ev_encounter_id = eid, ev_actor_type = HumanActor,
                     ev_event_type = ''note_updated'', ev_entity_table = Some ''notes'',
                     ev_entity_id = Some noteId, ev_summary = Some ''Note updated'',
                     ev_payload = None, ev_occurred_at = None\<rparr> w1)))"

text \<open>Lines 415 to 428: the note has no id and is inserted.\<close>

definition saveNote_insert :: "remote \<Rightarrow> string \<Rightarrow> payload \<Rightarrow> world \<Rightarrow> outcome \<times> world" where
  "saveNote_insert env eid payload w =
     (case send (inserted_note env) (Insert ''notes'' [payload] (ReturnSingle ''*'')) w of
        (Rejected, w1) \<Rightarrow> (Thrown, w1)
      | (Resolved data error, w1) \<Rightarrow>
          (case error of
             Some e \<Rightarrow>
               (Returned, emit (Alert (InsertNoteFailed e))
                            (emit (ConsoleError ''insert note failed:'' e) w1))
           | None \<Rightarrow>
               (case data of
                  None \<Rightarrow> (Thrown, w1)
                | Some row \<Rightarrow>
                    saveNote_finish env eid
                      (logEvent env
                         \<lparr>ev_encounter_id = eid, ev_actor_type = HumanActor,
                          ev_event_type = ''note_created'', ev_entity_table = Some ''notes'',
                          ev_entity_id = Some (n_id row), ev_summary = Some ''Note created'',
                          ev_payload = None, ev_occurred_at = None\<rparr> w1))))"

text \<open>
  Lines 388 to 399: the guard, the payload (whose date conversion may throw), and the
  choice between the two branches on \<open>editingNote.id\<close>.
\<close>

definition saveNote :: "remote \<Rightarrow> world \<Rightarrow> outcome \<times> world" where
  "saveNote env w =
     (case selectedEncounterId (ui w) of
        None \<Rightarrow> (Returned, w)
      | Some eid \<Rightarrow>
          (case editingNote (ui w) of
             None \<Rightarrow> (Returned, w)
           | Some en \<Rightarrow>
               if eid = [] then (Returned, w)
               else
                 (case (if en_occurred_at en \<noteq> [] then toISOString env (en_occurred_at en)
                        else Some (now env (trace w))) of
                    None \<Rightarrow> (Thrown, w)
                  | Some occurred_at \<Rightarrow>
                      (let payload = NoteNew eid (en_note_type en) (or_null (trim env (en_title en)))
                                       (en_content en) occurred_at
                       in case en_id en of
                            None \<Rightarrow> saveNote_insert env eid payload w
                          | Some noteId \<Rightarrow>
                              if noteId = [] then saveNote_insert env eid payload w
                              else saveNote_update env eid noteId payload w))))"

text \<open>
  Lines 440 to 442 of \<open>addOrder\<close>: \<open>const [codeRaw, ...nameParts] = val.split(' ')\<close>, the code
  upper-cased or null, the name joined again or \<open>'General Order'\<close>.
\<close>

definition parse_order :: "remote \<Rightarrow> string \<Rightarrow> string option \<times> string" where
  "parse_order env val =
     (let parts = split_space val;
          codeRaw = (case parts of [] \<Rightarrow> None | c # nameParts \<Rightarrow> Some c);
          nameParts = (case parts of [] \<Rightarrow> [] | c # nameParts \<Rightarrow> nameParts);
          code = (if truthy codeRaw then Some (toUpperCase env (the codeRaw)) else None);
          name = (if join_space nameParts = [] then ''General Order'' else join_space nameParts)
      in (code, name))"

definition addOrder :: "remote \<Rightarrow> string \<Rightarrow> world \<Rightarrow> outcome \<times> world" where
  "addOrder env rawInput w =
     (case selectedEncounterId (ui w) of
        None \<Rightarrow> (Returned, w)
      | Some eid \<Rightarrow>
          if eid = [] then (Returned, w)
          else
            (let val = trim env rawInput in
             if val = [] then (Returned, w)
             else
               (let (code, name) = parse_order env val;
                    occurred_at = now env (trace w)
                in case send (inserted_order env)
                          (Insert ''orders'' [OrderNew eid code name ''sent'' occurred_at None]
                             (ReturnSingle ''*'')) w of
                     (Rejected, w1) \<Rightarrow> (Thrown, w1)
                   | (Resolved data error, w1) \<Rightarrow>
                       (case error of
                          Some e \<Rightarrow>
                            (Returned, emit (Alert (InsertOrderFailed e))
                                         (emit (ConsoleError ''insert order failed:'' e) w1))
                        | None \<Rightarrow>
                            (case data of
                               None \<Rightarrow> (Thrown, w1)
                             | Some row \<Rightarrow>
                                 (let w2 = logEvent env
                                       \<lparr>ev_encounter_id = eid, ev_actor_type = HumanActor,
                                        ev_event_type = ''order_created'',
                                        ev_entity_table = Some ''orders'',
                                        ev_entity_id = Some (o_id row),
                                        ev_summary = Some (''Order: ''
                                           @ (case code of None \<Rightarrow> [] | Some c \<Rightarrow> c)
                                           @ '' '' @ name),
                                        ev_payload = None, ev_occurred_at = None\<rparr> w1
                                  in fetchEncounterData env eid
                                       (set_ui (\<lambda>s. s\<lparr>orderInput := []\<rparr>) w2)))))))"

definition addResult :: "remote \<Rightarrow> world \<Rightarrow> outcome \<times> world" where
  "addResult env w =
     (case selectedEncounterId (ui w) of
        None \<Rightarrow> (Returned, w)
      | Some eid \<Rightarrow>
          if eid = [] then (Returned, w)
          else
            (let name = trim env (resultName (ui w)) in
             if name = [] then (Returned, w)
             else
               (let occurred_at = now env (trace w)
                in case send (inserted_result env)
                          (Insert ''results''
                             [ResultNew eid (resultCategory (ui w)) name
                                (or_null (trim env (resultValue (ui w))))
                                (or_null (trim env (resultUnit (ui w))))
                                (or_null (trim env (resultFlag (ui w)))) occurred_at]
                             (ReturnSingle ''*'')) w of
                     (Rejected, w1) \<Rightarrow> (Thrown, w1)
                   | (Resolved data error, w1) \<Rightarrow>
                       (case error of
                          Some e \<Rightarrow>
                            (Returned, emit (Alert (InsertResultFailed e))
                                         (emit (ConsoleError ''insert result failed:'' e) w1))
                        | None \<Rightarrow>
                            (case data of
                               None \<Rightarrow> (Thrown, w1)
                             | Some row \<Rightarrow>
                                 (let w2 = logEvent env
                                       \<lparr>ev_encounter_id = eid, ev_actor_type = HumanActor,
                                        ev_event_type = ''result_created'',
                                        ev_entity_table = Some ''results'',
                                        ev_entity_id = Some (r_id row),
                                        ev_summary = Some (''Result: '' @ name),
                                        ev_payload = None, ev_occurred_at = None\<rparr> w1
                                  in fetchEncounterData env eid
                                       (set_ui (\<lambda>s. s\<lparr>resultName := [], resultValue := [],
                                                        resultUnit := [], resultFlag := []\<rparr>)
                                          w2)))))))"

text \<open>
  Lines 521 and 532 of \<open>addHumanDdx\<close>: the probability that is sent, from the text of the
  probability field.
\<close>

definition ddx_prob :: "remote \<Rightarrow> string \<Rightarrow> jsnum option" where
  "ddx_prob env raw =
     (let prob = (if trim env raw \<noteq> [] then Some (Number env raw) else None)
      in if isFinite prob then prob else None)"

definition addHumanDdx :: "remote \<Rightarrow> world \<Rightarrow> outcome \<times> world" where
  "addHumanDdx env w =
     (case selectedEncounterId (ui w) of
        None \<Rightarrow> (Returned, w)
      | Some eid \<Rightarrow>
          if eid = [] then (Returned, w)
          else
            (let name = trim env (ddxName (ui w)) in
             if name = [] then (Returned, w)
             else
               (let reason = or_null (trim env (ddxReason (ui w)));
                    occurred_at = now env (trace w)
                in case send (inserted_ddx env)
                          (Insert ''ddx_entries''
                             [DdxNew eid Human name (ddx_prob env (ddxProb (ui w))) reason
                                occurred_at None]
                             (ReturnSingle ''*'')) w of
                     (Rejected, w1) \<Rightarrow> (Thrown, w1)
                   | (Resolved data error, w1) \<Rightarrow>
                       (case error of
                          Some e \<Rightarrow>
                            (Returned, emit (Alert (InsertDdxFailed e))
                                         (emit (ConsoleError ''insert ddx failed:'' e) w1))
                        | None \<Rightarrow>
                            (case data of
                               None \<Rightarrow> (Thrown, w1)
                             | Some row \<Rightarrow>
                                 (let w2 = logEvent env
                                       \<lparr>ev_encounter_id = eid, ev_actor_type = HumanActor,
                                        ev_event_type = ''ddx_added'',
                                        ev_entity_table = Some ''ddx_entries'',
                                        ev_entity_id = Some (d_id row),
                                        ev_summary = Some (''DDX (human): '' @ name),
                                        ev_payload = None, ev_occurred_at = None\<rparr> w1
                                  in fetchEncounterData env eid
                                       (set_ui (\<lambda>s. s\<lparr>ddxName := [], ddxProb := [],
                                                        ddxReason := []\<rparr>) w2)))))))"


section \<open>The AI round trip\<close>

text \<open>The context is a projection of the lists already in state, not a fresh fetch.\<close>

definition ai_context_of :: "app_state \<Rightarrow> string \<Rightarrow> ai_context" where
  "ai_context_of s eid =
     \<lparr>ctx_encounter_id = eid,
      ctx_notes = map (\<lambda>n. (n_note_type n, n_title n, n_content n, n_occurred_at n)) (notes_state s),
      ctx_orders = map (\<lambda>x. (o_code x, o_name x, o_status x, o_occurred_at x)) (orders s),
      ctx_results = map (\<lambda>r. (r_category r, r_name r, r_value r, r_unit r, r_flag r, r_occurred_at r))
                      (results s),
      ctx_ddx = map (\<lambda>d. (d_source d, d_name d, d_prob d, d_reason d)) (ddx s)\<rparr>"

definition diagRows :: "string \<Rightarrow> string \<Rightarrow> ai_function_result \<Rightarrow> payload list" where
  "diagRows eid aiRunId result =
     map (\<lambda>d. AiSuggestionNew eid aiRunId Diagnosis None (dg_name d) (dg_prob d) (dg_reason d) (Inl d))
       (or_empty (diagnoses result))"

definition orderRows :: "string \<Rightarrow> string \<Rightarrow> ai_function_result \<Rightarrow> payload list" where
  "orderRows eid aiRunId result =
     map (\<lambda>r. AiSuggestionNew eid aiRunId OrderSuggestion (rc_code r) (rc_name r) None (rc_reason r)
                (Inr r))
       (or_empty (recommendations result))"

definition ddxRows :: "string \<Rightarrow> string \<Rightarrow> ai_function_result \<Rightarrow> string \<Rightarrow> payload list" where
  "ddxRows eid aiRunId result t =
     map (\<lambda>d. DdxNew eid Ai (dg_name d) (dg_prob d) (dg_reason d) t (Some aiRunId))
       (or_empty (diagnoses result))"

text \<open>
  The body of the \<open>try\<close> block of \<open>runAi\<close> in three pieces, last first. \<open>Thrown\<close> is an
  exception inside \<open>try\<close>, which the \<open>catch\<close> block of \<open>runAi\<close> receives; \<open>Returned\<close> is
  the end of the block or a \<open>return\<close> in it.

  Lines 686 to 688: the reload.
\<close>

definition runAi_reload :: "remote \<Rightarrow> string \<Rightarrow> world \<Rightarrow> outcome \<times> world" where
  "runAi_reload env eid w =
     (case fetchEncounterData env eid w of
        (Thrown, w1) \<Rightarrow> (Thrown, w1)
      | (Returned, w1) \<Rightarrow> fetchLatestAi env eid w1)"

text \<open>Lines 640 to 688: the suggestions, the AI DDX rows, the reload.\<close>

definition runAi_fan_out ::
  "remote \<Rightarrow> string \<Rightarrow> string \<Rightarrow> ai_function_result \<Rightarrow> world \<Rightarrow> outcome \<times> world" where
  "runAi_fan_out env eid aiRunId result w =
     (case send (written env)
             (Insert ''ai_suggestions'' (diagRows eid aiRunId result @ orderRows eid aiRunId result)
                NoReturn) w of
        (Rejected, w1) \<Rightarrow> (Thrown, w1)
      | (Resolved data sugErr, w1) \<Rightarrow>
          (case sugErr of
             Some e \<Rightarrow>
               (Returned, emit (Alert (AiSuggestionsSaveFailed e))
                            (emit (ConsoleError ''insert ai_suggestions failed:'' e) w1))
           | None \<Rightarrow>
               (case send (written env)
                       (Insert ''ddx_entries'' (ddxRows eid aiRunId result (now env (trace w1)))
                          NoReturn) w1 of
                  (Rejected, w2) \<Rightarrow> (Thrown, w2)
                | (Resolved data2 ddxErr, w2) \<Rightarrow>
                    runAi_reload env eid
                      (console_error_if ''insert ddx_entries(ai) failed:'' ddxErr w2))))"

text \<open>
  Lines 570 to 688. Reading \<open>runRow.id\<close> of a null row, or \<open>result.diagnoses\<close> of a null
  result, is a TypeError.
\<close>

definition runAi_try :: "remote \<Rightarrow> string \<Rightarrow> world \<Rightarrow> outcome \<times> world" where
  "runAi_try env eid w =
     (let context = ai_context_of (ui w) eid
      in case send (invoked env) (Invoke ''ai-analyze'' context) w of
           (Rejected, w1) \<Rightarrow> (Thrown, w1)
         | (Resolved data error, w1) \<Rightarrow>
             (case error of
                Some e \<Rightarrow>
                  (Returned, emit (Alert (AiAnalyzeFailed e))
                               (emit (ConsoleError ''ai function error:'' e) w1))
              | None \<Rightarrow>
                  (case send (inserted_ai_run env)
                          (Insert ''ai_runs''
                             [AiRunNew eid ''gemini'' ''gemini-2.0-flash'' ''completed'' context data]
                             (ReturnSingle ''id,encounter_id,provider,model,status,created_at'')) w1 of
                     (Rejected, w2) \<Rightarrow> (Thrown, w2)
                   | (Resolved runRow runErr, w2) \<Rightarrow>
                       (case runErr of
                          Some e \<Rightarrow>
                            (Returned, emit (Alert (AiRunsSaveFailed e))
                                         (emit (ConsoleError ''insert ai_runs failed:'' e) w2))
                        | None \<Rightarrow>
                            (case runRow of
                               None \<Rightarrow> (Thrown, w2)
                             | Some row \<Rightarrow>
                                 (let w3 = logEvent env
                                       \<lparr>ev_encounter_id = eid, ev_actor_type = AiActor,
                                        ev_event_type = ''ai_run_completed'',
                                        ev_entity_table = Some ''ai_runs'',
                                        ev_entity_id = Some (run_id row),
                                        ev_summary = Some ''AI run completed'',
                                        ev_payload = Some [(''provider'', ''gemini''),
                                                           (''model'', ''gemini-2.0-flash'')],
                                        ev_occurred_at = None\<rparr> w2
                                  in case data of
                                       None \<Rightarrow> (Thrown, w3)
                                     | Some result \<Rightarrow>
                                         runAi_fan_out env eid (run_id row) result w3))))))"

text \<open>
  Lines 689 to 694: what \<open>catch\<close> and \<open>finally\<close> make of the way the \<open>try\<close> block ended.
\<close>

fun runAi_settle :: "outcome \<times> world \<Rightarrow> outcome \<times> world" where
  "runAi_settle (Returned, w) = (Returned, set_ui (\<lambda>s. s\<lparr>isAiLoading := False\<rparr>) w)"
| "runAi_settle (Thrown, w) =
     (Returned, set_ui (\<lambda>s. s\<lparr>isAiLoading := False\<rparr>)
                  (emit (Alert AiConnectionFailed) (emit ConsoleException w)))"

text \<open>\<open>runAi\<close>: the guard, the two flags, and the \<open>try\<close> block with its \<open>catch\<close> and \<open>finally\<close>.\<close>

definition runAi :: "remote \<Rightarrow> world \<Rightarrow> outcome \<times> world" where
  "runAi env w =
     (case selectedEncounterId (ui w) of
        None \<Rightarrow> (Returned, w)
      | Some eid \<Rightarrow>
          if eid = [] \<or> isAiLoading (ui w) then (Returned, w)
          else runAi_settle
                 (runAi_try env eid
                    (set_ui (\<lambda>s. s\<lparr>isAiLoading := True, selectedAiOrderSuggestionIds := []\<rparr>) w)))"

text \<open>Lines 699 to 701 of \<open>applyAiOrders\<close>: the selected suggestions of type order.\<close>

definition picks :: "app_state \<Rightarrow> ai_suggestion_row list" where
  "picks s =
     filter (\<lambda>sg. s_suggestion_type sg = OrderSuggestion
                  \<and> s_id sg \<in> set (selectedAiOrderSuggestionIds s))
       (aiSuggestions s)"

definition applyAiOrders :: "remote \<Rightarrow> world \<Rightarrow> outcome \<times> world" where
  "applyAiOrders env w =
     (case selectedEncounterId (ui w) of
        None \<Rightarrow> (Returned, w)
      | Some eid \<Rightarrow>
          if eid = [] then (Returned, w)
          else if length (picks (ui w)) = 0 then (Returned, w)
          else
            (let occurred_at = now env (trace w);
                 rows = map (\<lambda>p. OrderNew eid (s_code p) (s_name p) ''sent'' occurred_at
                                    (Some (s_ai_run_id p, s_id p, s_reason p)))
                          (picks (ui w))
             in case send (inserted_ids env) (Insert ''orders'' rows (ReturnRows ''id'')) w of
                  (Rejected, w1) \<Rightarrow> (Thrown, w1)
                | (Resolved data error, w1) \<Rightarrow>
                    (case error of
                       Some e \<Rightarrow>
                         (Returned, emit (Alert (ApplyAiOrdersFailed e))
                                      (emit (ConsoleError ''applyAiOrders insert failed:'' e) w1))
                     | None \<Rightarrow>
                         (let w2 = foldl (\<lambda>w' inserted. logEvent env
                                       \<lparr>ev_encounter_id = eid, ev_actor_type = AiActor,
                                        ev_event_type = ''order_created_from_ai'',
                                        ev_entity_table = Some ''orders'',
                                        ev_entity_id = Some inserted,
                                        ev_summary = Some ''Order created from AI suggestion'',
                                        ev_payload = None, ev_occurred_at = None\<rparr> w')
                                     w1 (or_empty data)
                          in fetchEncounterData env eid
                               (set_ui (\<lambda>s. s\<lparr>selectedAiOrderSuggestionIds := []\<rparr>) w2)))))"


section \<open>The user's actions\<close>

text \<open>
  The inputs of the forms. \<open>SetEditingNote\<close> covers every handler of the note modal: each
  of them replaces \<open>editingNote\<close> by some value.
\<close>

datatype form_edit =
    SetIsPatientModalOpen bool
  | SetNewPatientName string
  | SetNewPatientMrn string
  | SetNewPatientSex string
  | SetNewEncounterLocation string
  | SetNewEncounterArrivalAt string
  | SetEditingNote "editing_note option"
  | SetOrderInput string
  | SetResultCategory string
  | SetResultName string
  | SetResultValue string
  | SetResultUnit string
  | SetResultFlag string
  | SetDdxName string
  | SetDdxProb string
  | SetDdxReason string

fun apply_edit :: "form_edit \<Rightarrow> app_state \<Rightarrow> app_state" where
  "apply_edit (SetIsPatientModalOpen v) s = s\<lparr>isPatientModalOpen := v\<rparr>"
| "apply_edit (SetNewPatientName v) s = s\<lparr>newPatientName := v\<rparr>"
| "apply_edit (SetNewPatientMrn v) s = s\<lparr>newPatientMrn := v\<rparr>"
| "apply_edit (SetNewPatientSex v) s = s\<lparr>newPatientSex := v\<rparr>"
| "apply_edit (SetNewEncounterLocation v) s = s\<lparr>newEncounterLocation := v\<rparr>"
| "apply_edit (SetNewEncounterArrivalAt v) s = s\<lparr>newEncounterArrivalAt := v\<rparr>"
| "apply_edit (SetEditingNote v) s = s\<lparr>editingNote := v\<rparr>"
| "apply_edit (SetOrderInput v) s = s\<lparr>orderInput := v\<rparr>"
| "apply_edit (SetResultCategory v) s = s\<lparr>resultCategory := v\<rparr>"
| "apply_edit (SetResultName v) s = s\<lparr>resultName := v\<rparr>"
| "apply_edit (SetResultValue v) s = s\<lparr>resultValue := v\<rparr>"
| "apply_edit (SetResultUnit v) s = s\<lparr>resultUnit := v\<rparr>"
| "apply_edit (SetResultFlag v) s = s\<lparr>resultFlag := v\<rparr>"
| "apply_edit (SetDdxName v) s = s\<lparr>ddxName := v\<rparr>"
| "apply_edit (SetDdxProb v) s = s\<lparr>ddxProb := v\<rparr>"
| "apply_edit (SetDdxReason v) s = s\<lparr>ddxReason := v\<rparr>"

datatype action =
    ClickPatient string
  | ClickEncounter string
  | CreatePatient
  | CreateEncounter
  | SaveNote
  | AddOrder
  | AddResult
  | AddHumanDdx
  | RunAi
  | ApplyAiOrders
  | ToggleAiOrder string bool
  | Edit form_edit

text \<open>
  The handler of each action. \<open>ClickPatient\<close> is the \<open>onClick\<close> of a patient button (lines
  768 to 771), \<open>ToggleAiOrder\<close> the \<open>onChange\<close> of a suggestion's checkbox.
\<close>

fun handler :: "remote \<Rightarrow> action \<Rightarrow> world \<Rightarrow> outcome \<times> world" where
  "handler env (ClickPatient pid) w =
     (Returned, set_ui (\<lambda>s. s\<lparr>selectedPatientId := Some pid, selectedEncounterId := None\<rparr>) w)"
| "handler env (ClickEncounter eid) w =
     (Returned, set_ui (\<lambda>s. s\<lparr>selectedEncounterId := Some eid\<rparr>) w)"
| "handler env CreatePatient w = createPatient env w"
| "handler env CreateEncounter w = createEncounter env w"
| "handler env SaveNote w = saveNote env w"
| "handler env AddOrder w = addOrder env (orderInput (ui w)) w"
| "handler env AddResult w = addResult env w"
| "handler env AddHumanDdx w = addHumanDdx env w"
| "handler env RunAi w = runAi env w"
| "handler env ApplyAiOrders w = applyAiOrders env w"
| "handler env (ToggleAiOrder sid checked) w =
     (Returned,
      set_ui (\<lambda>s. s\<lparr>selectedAiOrderSuggestionIds :=
                       (if checked then selectedAiOrderSuggestionIds s @ [sid]
                        else filter (\<lambda>x. x \<noteq> sid) (selectedAiOrderSuggestionIds s))\<rparr>) w)"
| "handler env (Edit ed) w = (Returned, set_ui (apply_edit ed) w)"

text \<open>
  An action is its handler followed by the effects of the renders it causes. An action
  is run to its end, with every reply it waits for, before the next one starts; the
  interleaving of a pending reply with a later click is outside the model.
\<close>

definition perform :: "remote \<Rightarrow> action \<Rightarrow> world \<Rightarrow> outcome \<times> world" where
  "perform env a w = (case handler env a w of (out, w') \<Rightarrow> (out, run_effects env (ui w) w'))"

text \<open>
  A checkbox exists only for a suggestion of type order that is in state; every other
  control is taken to be there always.
\<close>

fun enabled :: "action \<Rightarrow> app_state \<Rightarrow> bool" where
  "enabled (ToggleAiOrder sid checked) s =
     (sid \<in> set (map s_id (filter (\<lambda>sg. s_suggestion_type sg = OrderSuggestion) (aiSuggestions s))))"
| "enabled a s = True"

text \<open>The worlds the component can be in: after mounting, and after any enabled action.\<close>

inductive reachable :: "remote \<Rightarrow> world \<Rightarrow> bool" for env :: remote where
  mounted: "reachable env (mount env)"
| acted: "reachable env w \<Longrightarrow> enabled a (ui w) \<Longrightarrow> reachable env (snd (perform env a w))"


section \<open>Notions used to state the properties\<close>

text \<open>
  The order text as the specification words it: the first space-separated token, and the
  remainder of the string after the space that ends it.
\<close>

definition first_token :: "string \<Rightarrow> string" where
  "first_token val = takeWhile (\<lambda>c. c \<noteq> CHR '' '') val"

definition remainder :: "string \<Rightarrow> string" where
  "remainder val = drop 1 (dropWhile (\<lambda>c. c \<noteq> CHR '' '') val)"

text \<open>What an action added to the trace.\<close>

definition new_effects :: "world \<Rightarrow> world \<Rightarrow> effect list" where
  "new_effects w w' = drop (length (trace w)) (trace w')"

text \<open>A call failed: its promise rejected, or it resolved with an error.\<close>

fun failed :: "'a reply \<Rightarrow> bool" where
  "failed Rejected = True"
| "failed (Resolved d e) = (e \<noteq> None)"

fun is_alert :: "effect \<Rightarrow> bool" where
  "is_alert (Alert a) = True"
| "is_alert e = False"

fun is_select :: "effect \<Rightarrow> bool" where
  "is_select (Req (Select t c f ob l)) = True"
| "is_select e = False"

fun is_write :: "effect \<Rightarrow> bool" where
  "is_write (Req (Insert t rows r)) = True"
| "is_write (Req (Update t p k)) = True"
| "is_write e = False"

text \<open>A probability that is null or a finite number.\<close>

fun finite_or_null :: "jsnum option \<Rightarrow> bool" where
  "finite_or_null None = True"
| "finite_or_null (Some (Finite x)) = True"
| "finite_or_null (Some v) = False"

text \<open>
  The rows and queries the client sends. A row goes to its own table; a row that belongs
  to an encounter (or an encounter, to its patient) names a nonempty owner; an order has
  status \<open>sent\<close>; a DDX row of a human has a probability that is null or finite.
\<close>

fun row_ok :: "string \<Rightarrow> payload \<Rightarrow> bool" where
  "row_ok t (PatientNew name mrn sex) = (t = ''patients'')"
| "row_ok t (EncounterNew pid arrival loc st) = (t = ''encounters'' \<and> pid \<noteq> [])"
| "row_ok t (NoteNew eid ty title content tm) = (t = ''notes'' \<and> eid \<noteq> [])"
| "row_ok t (OrderNew eid code name st tm dat) = (t = ''orders'' \<and> eid \<noteq> [] \<and> st = ''sent'')"
| "row_ok t (ResultNew eid cat name v u f tm) = (t = ''results'' \<and> eid \<noteq> [])"
| "row_ok t (DdxNew eid src name prob reason tm dat) =
     (t = ''ddx_entries'' \<and> eid \<noteq> [] \<and> (src = Human \<longrightarrow> finite_or_null prob))"
| "row_ok t (AiRunNew eid prov model st prompt resp) = (t = ''ai_runs'' \<and> eid \<noteq> [])"
| "row_ok t (AiSuggestionNew eid rid ty code name prob reason raw) =
     (t = ''ai_suggestions'' \<and> eid \<noteq> [])"
| "row_ok t (PatientEventNew eid act ty tbl ent summ pl tm) = (t = ''patient_events'' \<and> eid \<noteq> [])"

definition select_shapes ::
  "(string \<times> string \<times> string option \<times> (string \<times> bool) option \<times> nat option) list" where
  "select_shapes =
     [(''patients'', ''id,mrn,name,sex,dob'', None, Some (''created_at'', False), None),
      (''encounters'', ''id,patient_id,arrival_at,location,status'', Some ''patient_id'',
         Some (''created_at'', False), None),
      (''notes'', ''*'', Some ''encounter_id'', Some (''occurred_at'', False), None),
      (''orders'', ''*'', Some ''encounter_id'', Some (''occurred_at'', False), None),
      (''results'', ''*'', Some ''encounter_id'', Some (''occurred_at'', False), None),
      (''ddx_entries'', ''*'', Some ''encounter_id'', Some (''occurred_at'', False), None),
      (''ai_runs'', ''id,encounter_id,provider,model,status,created_at'', Some ''encounter_id'',
         Some (''created_at'', False), Some 1),
      (''ai_suggestions'', ''*'', Some ''ai_run_id'', Some (''created_at'', True), None)]"

fun issued :: "effect \<Rightarrow> bool" where
  "issued (Req (Select t c f ob l)) = ((t, c, map_option fst f, ob, l) \<in> set select_shapes)"
| "issued (Req (Insert t rows r)) = list_all (row_ok t) rows"
| "issued (Req (Update t p k)) = (t = ''notes'' \<and> row_ok t p \<and> fst k = ''id'')"
| "issued (Req (Invoke f c)) = (f = ''ai-analyze'' \<and> ctx_encounter_id c \<noteq> [])"
| "issued e = True"

text \<open>Everything the client has done so far is of the kinds above.\<close>

definition clean :: "world \<Rightarrow> bool" where
  "clean w = list_all issued (trace w)"

text \<open>The part of the state that shows the selected encounter.\<close>

definition views ::
  "app_state \<Rightarrow> note_row list \<times> order_row list \<times> result_row list \<times> ddx_entry list
     \<times> ai_run option \<times> ai_suggestion_row list \<times> string list" where
  "views s = (notes_state s, orders s, results s, ddx s, latestAiRun s,
      aiSuggestions s, selectedAiOrderSuggestionIds s)"

text \<open>The views are empty.\<close>

definition views_empty :: "app_state \<Rightarrow> bool" where
  "views_empty s =
     (notes_state s = [] \<and> orders s = [] \<and> results s = [] \<and> ddx s = []
      \<and> latestAiRun s = None \<and> aiSuggestions s = [] \<and> selectedAiOrderSuggestionIds s = [])"

text \<open>
  A select as the specification describes all of them: filtered on some column and
  ordered descending. And as the client issues them: ordered by a timestamp column,
  ascending exactly for \<open>ai_suggestions\<close>, and filtered by the key of the owner, which the
  root table \<open>patients\<close> does not have.
\<close>

fun select_filtered_desc :: "effect \<Rightarrow> bool" where
  "select_filtered_desc (Req (Select t c f ob l)) =
     (f \<noteq> None \<and> (case ob of None \<Rightarrow> False | Some (col, ascending) \<Rightarrow> \<not> ascending))"
| "select_filtered_desc e = True"

definition owning_key :: "string \<Rightarrow> string option" where
  "owning_key t =
     (if t = ''patients'' then None
      else if t = ''encounters'' then Some ''patient_id''
      else if t = ''ai_suggestions'' then Some ''ai_run_id''
      else Some ''encounter_id'')"

fun select_as_issued :: "effect \<Rightarrow> bool" where
  "select_as_issued (Req (Select t c f ob l)) =
     (map_option fst f = owning_key t
      \<and> (case ob of
           None \<Rightarrow> False
         | Some (col, ascending) \<Rightarrow>
             (col = ''created_at'' \<or> col = ''occurred_at'')
             \<and> (ascending \<longleftrightarrow> t = ''ai_suggestions'')))"
| "select_as_issued e = True"

text \<open>No order leaves the client with another status, and no update reaches \<open>orders\<close>.\<close>

fun order_sent :: "payload \<Rightarrow> bool" where
  "order_sent (OrderNew eid code name st tm dat) = (st = ''sent'')"
| "order_sent p = False"

fun orders_only_sent :: "effect \<Rightarrow> bool" where
  "orders_only_sent (Req (Insert t rows r)) = (t = ''orders'' \<longrightarrow> list_all order_sent rows)"
| "orders_only_sent (Req (Update t p k)) = (t \<noteq> ''orders'')"
| "orders_only_sent e = True"

text \<open>Every row written for an encounter names one: the reference is not empty.\<close>

fun names_encounter :: "payload \<Rightarrow> bool" where
  "names_encounter (PatientNew name mrn sex) = True"
| "names_encounter (EncounterNew pid arrival loc st) = True"
| "names_encounter p = (new_encounter_id p \<noteq> [])"

fun writes_name_encounter :: "effect \<Rightarrow> bool" where
  "writes_name_encounter (Req (Insert t rows r)) = list_all names_encounter rows"
| "writes_name_encounter (Req (Update t p k)) = names_encounter p"
| "writes_name_encounter e = True"

text \<open>No DDX row of a human is written with a probability that is NaN or infinite.\<close>

fun human_prob_finite :: "payload \<Rightarrow> bool" where
  "human_prob_finite (DdxNew eid src name prob reason tm dat) =
     (src = Human \<longrightarrow> finite_or_null prob)"
| "human_prob_finite p = True"

fun human_probs_finite :: "effect \<Rightarrow> bool" where
  "human_probs_finite (Req (Insert t rows r)) = list_all human_prob_finite rows"
| "human_probs_finite e = True"

text \<open>Console output.\<close>

fun is_console :: "effect \<Rightarrow> bool" where
  "is_console (ConsoleError l m) = True"
| "is_console ConsoleException = True"
| "is_console e = False"

text \<open>
  The four selects of \<open>fetchEncounterData\<close> and the first select of \<open>fetchLatestAi\<close>, as
  the reload at the end of \<open>runAi\<close> issues them.
\<close>

definition reload_selects :: "string \<Rightarrow> effect list" where
  "reload_selects eid =
     [Req (Select ''notes'' ''*'' (Some (''encounter_id'', eid)) (Some (''occurred_at'', False)) None),
      Req (Select ''orders'' ''*'' (Some (''encounter_id'', eid)) (Some (''occurred_at'', False)) None),
      Req (Select ''results'' ''*'' (Some (''encounter_id'', eid)) (Some (''occurred_at'', False)) None),
      Req (Select ''ddx_entries'' ''*'' (Some (''encounter_id'', eid)) (Some (''occurred_at'', False))
             None)]"

definition latest_run_select :: "string \<Rightarrow> effect" where
  "latest_run_select eid =
     Req (Select ''ai_runs'' ''id,encounter_id,provider,model,status,created_at''
            (Some (''encounter_id'', eid)) (Some (''created_at'', False)) (Some 1))"

text \<open>No select is ever rejected (its promise always resolves, with data or an error).\<close>

definition selects_resolve :: "remote \<Rightarrow> bool" where
  "selects_resolve env =
     (\<forall>h. notes_of env h \<noteq> Rejected \<and> orders_of env h \<noteq> Rejected
          \<and> results_of env h \<noteq> Rejected \<and> ddx_of env h \<noteq> Rejected
          \<and> ai_runs_of env h \<noteq> Rejected \<and> ai_suggestions_of env h \<noteq> Rejected)"

text \<open>An environment with the replies of \<open>env\<close> except those to the audit inserts.\<close>

definition with_audit :: "(effect list \<Rightarrow> unit reply) \<Rightarrow> remote \<Rightarrow> remote" where
  "with_audit g env = env\<lparr>audit_written := g\<rparr>"


section \<open>A concrete environment\<close>

definition demo_patient :: patient where
  "demo_patient = \<lparr>p_id = ''p1'', p_mrn = None, p_name = ''Wang'', p_sex = None, p_dob = None\<rparr>"

definition demo_new_patient :: patient where
  "demo_new_patient = \<lparr>p_id = ''p2'', p_mrn = None, p_name = ''Lin'', p_sex = None, p_dob = None\<rparr>"

definition demo_encounter :: encounter where
  "demo_encounter =
     \<lparr>e_id = ''e1'', e_patient_id = ''p1'', e_arrival_at = None, e_location = Some ''ER-012'',
      e_status = ''active''\<rparr>"

definition demo_note :: note_row where
  "demo_note =
     \<lparr>n_id = ''n1'', n_encounter_id = ''e1'', n_note_type = ''Progress Note'', n_title = None,
      n_content = ''chest pain'', n_occurred_at = ''t0''\<rparr>"

definition demo_order :: order_row where
  "demo_order =
     \<lparr>o_id = ''o1'', o_encounter_id = ''e1'', o_code = Some ''CBC'', o_name = ''General Order'',
      o_status = ''sent'', o_occurred_at = ''t0''\<rparr>"

definition demo_result :: result_row where
  "demo_result =
     \<lparr>r_id = ''r1'', r_encounter_id = ''e1'', r_category = ''lab'', r_code = None,
      r_name = ''Troponin'', r_value = None, r_unit = None, r_flag = None, r_occurred_at = ''t0''\<rparr>"

definition demo_ddx :: ddx_entry where
  "demo_ddx =
     \<lparr>d_id = ''d1'', d_encounter_id = ''e1'', d_source = Human, d_name = ''AMI'', d_prob = None,
      d_reason = None, d_occurred_at = ''t0''\<rparr>"

definition demo_run :: ai_run where
  "demo_run =
     \<lparr>run_id = ''run1'', run_encounter_id = ''e1'', run_provider = ''gemini'',
      run_model = ''gemini-2.0-flash'', run_status = ''completed'', run_created_at = ''t0''\<rparr>"

definition demo_suggestion :: ai_suggestion_row where
  "demo_suggestion =
     \<lparr>s_id = ''s1'', s_encounter_id = ''e1'', s_ai_run_id = ''run1'',
      s_suggestion_type = OrderSuggestion, s_code = Some ''MED001'', s_name = ''Aspirin'',
      s_prob = None, s_reason = None, s_created_at = ''t0''\<rparr>"

definition demo_answer :: ai_function_result where
  "demo_answer =
     \<lparr>diagnoses = Some [\<lparr>dg_name = ''AMI'', dg_prob = None, dg_reason = None\<rparr>],
      recommendations = Some [\<lparr>rc_code = Some ''MED001'', rc_name = ''Aspirin'', rc_reason = None\<rparr>]\<rparr>"

text \<open>Every call succeeds, and the store always holds the same rows.\<close>

definition demo_remote :: remote where
  "demo_remote =
     \<lparr>now = (\<lambda>h. ''t1''),
      toISOString = (\<lambda>s. Some s),
      trim = ascii_trim,
      toUpperCase = ascii_toUpperCase,
      Number = (\<lambda>s. if s = ''0.3'' then Finite (3 / 10) else NaN),
      patients_of = (\<lambda>h. Resolved (Some [demo_patient]) None),
      encounters_of = (\<lambda>h. Resolved (Some [demo_encounter]) None),
      notes_of = (\<lambda>h. Resolved (Some [demo_note]) None),
      orders_of = (\<lambda>h. Resolved (Some [demo_order]) None),
      results_of = (\<lambda>h. Resolved (Some [demo_result]) None),
      ddx_of = (\<lambda>h. Resolved (Some [demo_ddx]) None),
      ai_runs_of = (\<lambda>h. Resolved (Some [demo_run]) None),
      ai_suggestions_of = (\<lambda>h. Resolved (Some [demo_suggestion]) None),
      inserted_patient = (\<lambda>h. Resolved (Some demo_new_patient) None),
      inserted_encounter = (\<lambda>h. Resolved (Some demo_encounter) None),
      inserted_note = (\<lambda>h. Resolved (Some demo_note) None),
      inserted_order = (\<lambda>h. Resolved (Some demo_order) None),
      inserted_result = (\<lambda>h. Resolved (Some demo_result) None),
      inserted_ddx = (\<lambda>h. Resolved (Some demo_ddx) None),
      inserted_ai_run = (\<lambda>h. Resolved (Some demo_run) None),
      inserted_ids = (\<lambda>h. Resolved (Some [''o2'']) None),
      written = (\<lambda>h. Resolved None None),
      audit_written = (\<lambda>h. Resolved None None),
      invoked = (\<lambda>h. Resolved (Some demo_answer) None)\<rparr>"

text \<open>A world in which the encounter \<open>e1\<close> is selected and its data are loaded.\<close>

definition demo_world :: world where
  "demo_world =
     \<lparr>ui = initial_state\<lparr>patients := [demo_patient], selectedPatientId := Some ''p1'',
                          encounters := [demo_encounter], selectedEncounterId := Some ''e1'',
                          notes_state := [demo_note], orders := [demo_order],
                          results := [demo_result], ddx := [demo_ddx],
                          latestAiRun := Some demo_run, aiSuggestions := [demo_suggestion]\<rparr>,
      trace = []\<rparr>"


text \<open>
  A world with no encounter selected whose views are filled. The component is in such a
  world when the replies of a fetch it started for an encounter arrive after a click has
  cleared the selection (nothing cancels the fetch).
\<close>

definition stale_world :: world where
  "stale_world = demo_world\<lparr>ui := (ui demo_world)\<lparr>selectedEncounterId := None\<rparr>\<rparr>"

text \<open>The same environment with one call that fails.\<close>

definition ai_failing :: remote where
  "ai_failing = demo_remote\<lparr>invoked := (\<lambda>h. Resolved None (Some ''quota exceeded''))\<rparr>"

definition ai_runs_failing :: remote where
  "ai_runs_failing = demo_remote\<lparr>inserted_ai_run := (\<lambda>h. Resolved None (Some ''denied''))\<rparr>"

definition suggestions_failing :: remote where
  "suggestions_failing = demo_remote\<lparr>written := (\<lambda>h. Resolved None (Some ''denied''))\<rparr>"

definition ddx_rejecting :: remote where
  "ddx_rejecting =
     demo_remote\<lparr>written := (\<lambda>h. case last h of
                                     Req (Insert t rows r) \<Rightarrow>
                                       if t = ''ddx_entries'' then Rejected
                                       else Resolved None None
                                   | e \<Rightarrow> Resolved None None)\<rparr>"

definition ddx_failing :: remote where
  "ddx_failing =
     demo_remote\<lparr>written := (\<lambda>h. case last h of
                                     Req (Insert t rows r) \<Rightarrow>
                                       if t = ''ddx_entries'' then Resolved None (Some ''denied'')
                                       else Resolved None None
                                   | e \<Rightarrow> Resolved None None)\<rparr>"


text \<open>
  The world after mounting, opening the encounter \<open>e1\<close> and typing a DDX entry whose
  probability is not a number.
\<close>

definition ddx_typed_world :: world where
  "ddx_typed_world =
     snd (perform demo_remote (Edit (SetDdxProb ''abc''))
       (snd (perform demo_remote (Edit (SetDdxName ''AMI''))
         (snd (perform demo_remote (ClickEncounter ''e1'') (mount demo_remote))))))"

text \<open>
  The world after mounting, clicking the patient \<open>p1\<close>, opening the encounter \<open>e1\<close> and
  typing the name of a new patient.
\<close>

definition patient_typed_world :: world where
  "patient_typed_world =
     snd (perform demo_remote (Edit (SetNewPatientName ''Lin''))
       (snd (perform demo_remote (ClickEncounter ''e1'')
         (snd (perform demo_remote (ClickPatient ''p1'') (mount demo_remote))))))"


section \<open>Strings\<close>

lemma split_space_nonempty: "split_space s \<noteq> []"
  by (induction s) (auto split: list.splits)

lemma join_split_space: "join_space (split_space s) = s"
proof (induction s)
  case Nil
  show ?case by simp
next
  case (Cons c cs)
  obtain t ts where ts: "split_space cs = t # ts"
    using split_space_nonempty [of cs] by (cases "split_space cs") auto
  show ?case
  proof (cases "c = CHR '' ''")
    case True
    with Cons ts show ?thesis by simp
  next
    case False
    with Cons ts show ?thesis by (cases ts) auto
  qed
qed

lemma hd_split_space: "hd (split_space s) = first_token s"
  using split_space_nonempty
  by (induction s) (auto simp: first_token_def split: list.splits)

lemma tl_split_space: "join_space (tl (split_space s)) = remainder s"
proof (induction s)
  case Nil
  show ?case by (simp add: remainder_def)
next
  case (Cons c cs)
  show ?case
  proof (cases "c = CHR '' ''")
    case True
    then show ?thesis by (simp add: remainder_def join_split_space)
  next
    case False
    with Cons show ?thesis
      by (auto simp: remainder_def split: list.splits)
  qed
qed

lemma rev_dropWhile_rev_hd:
  assumes "\<not> P x"
  shows "\<exists>ys. rev (dropWhile P (rev (x # xs))) = x # ys"
proof -
  have "\<exists>zs. dropWhile P (rev xs @ [x]) = zs @ [x]"
    using assms by (cases "\<forall>y\<in>set (rev xs). P y") (auto simp: dropWhile_append)
  then obtain zs where "dropWhile P (rev xs @ [x]) = zs @ [x]" by blast
  then show ?thesis by simp
qed

lemma ascii_trim_starts_with_no_space:
  assumes ne: "ascii_trim s \<noteq> []"
  shows "hd (ascii_trim s) \<noteq> CHR '' ''"
proof -
  obtain x xs where d: "dropWhile ascii_is_space s = x # xs"
    using ne unfolding ascii_trim_def by (cases "dropWhile ascii_is_space s") auto
  have nx: "\<not> ascii_is_space x"
    using hd_dropWhile [of ascii_is_space s] d by simp
  obtain ys where "rev (dropWhile ascii_is_space (rev (x # xs))) = x # ys"
    using rev_dropWhile_rev_hd [of ascii_is_space x xs] nx by blast
  then have "ascii_trim s = x # ys" unfolding ascii_trim_def d by simp
  with nx show ?thesis by (auto simp: ascii_is_space_def)
qed

lemma first_token_nonempty: "val \<noteq> [] \<Longrightarrow> hd val \<noteq> CHR '' '' \<Longrightarrow> first_token val \<noteq> []"
  by (cases val) (auto simp: first_token_def)

lemma parse_order_eq:
  "val \<noteq> [] \<Longrightarrow> hd val \<noteq> CHR '' '' \<Longrightarrow>
   parse_order env val =
     (Some (toUpperCase env (first_token val)),
      if remainder val = [] then ''General Order'' else remainder val)"
  using split_space_nonempty [of val] hd_split_space [of val] tl_split_space [of val]
    first_token_nonempty [of val]
  by (cases "split_space val") (auto simp: parse_order_def truthy_def Let_def)

section \<open>Worlds and traces\<close>

lemma ui_set_ui [simp]: "ui (set_ui f w) = f (ui w)"
  and trace_set_ui [simp]: "trace (set_ui f w) = trace w"
  by (simp_all add: set_ui_def)

lemma ui_emit [simp]: "ui (emit e w) = ui w"
  and trace_emit [simp]: "trace (emit e w) = trace w @ [e]"
  by (simp_all add: emit_def)

lemma send_eq [simp]: "send oracle rq w = (oracle (trace w @ [Req rq]), emit (Req rq) w)"
  by (simp add: send_def Let_def)

lemma ui_console_error_if [simp]: "ui (console_error_if l e w) = ui w"
  by (simp add: console_error_if_def split: option.split)

lemma clean_set_ui [simp]: "clean (set_ui f w) = clean w"
  by (simp add: clean_def)

lemma clean_emit [simp]: "clean (emit e w) = (clean w \<and> issued e)"
  by (simp add: clean_def)

lemma clean_console_error_if [simp]: "clean (console_error_if l e w) = clean w"
  by (simp add: console_error_if_def split: option.split)

lemma ui_logEvent [simp]: "ui (logEvent env args w) = ui w"
  by (simp add: logEvent_def split: reply.split)

lemma trace_logEvent:
  "trace (logEvent env args w) =
     trace w @ [Req (Insert ''patient_events''
        [PatientEventNew (ev_encounter_id args) (ev_actor_type args) (ev_event_type args)
           (ev_entity_table args) (ev_entity_id args) (ev_summary args)
           (case ev_payload args of None \<Rightarrow> [] | Some p \<Rightarrow> p)
           (case ev_occurred_at args of None \<Rightarrow> now env (trace w) | Some t \<Rightarrow> t)] NoReturn)]"
  by (simp add: logEvent_def split: reply.split)

lemma clean_logEvent [simp]:
  "ev_encounter_id args \<noteq> [] \<Longrightarrow> clean (logEvent env args w) = clean w"
  by (simp add: clean_def trace_logEvent)

lemma clean_fetchPatients [simp]: "clean (snd (fetchPatients env w)) = clean w"
  by (simp add: fetchPatients_def select_shapes_def split: reply.split option.split)

lemma clean_fetchEncounters [simp]: "clean (snd (fetchEncounters env p w)) = clean w"
  by (simp add: fetchEncounters_def select_shapes_def split: reply.split option.split)

lemma clean_fetchEncounterData [simp]: "clean (snd (fetchEncounterData env e w)) = clean w"
  by (simp add: fetchEncounterData_def select_shapes_def Let_def)

lemma clean_fetchLatestAi [simp]: "clean (snd (fetchLatestAi env e w)) = clean w"
  by (simp add: fetchLatestAi_def select_shapes_def Let_def split: reply.split option.split list.split)

lemma clean_patient_effect [simp]: "clean (patient_effect env p w) = clean w"
  by (simp add: patient_effect_def split: option.split)

lemma clean_encounter_effect [simp]: "clean (encounter_effect env e w) = clean w"
  by (simp add: encounter_effect_def)

lemma clean_run_effects [simp]: "clean (run_effects env prev w) = clean w"
  by (simp add: run_effects_def Let_def)

lemma clean_mount: "clean (mount env)"
  by (simp add: mount_def Let_def) (simp add: clean_def)

lemma clean_createPatient [simp]: "clean (snd (createPatient env w)) = clean w"
  by (simp add: createPatient_def Let_def case_prod_beta
      split: reply.split option.split outcome.split)

lemma clean_createEncounter [simp]: "clean (snd (createEncounter env w)) = clean w"
  by (simp add: createEncounter_def Let_def case_prod_beta
      split: reply.split option.split outcome.split)

lemma clean_saveNote_finish [simp]: "clean (snd (saveNote_finish env e w)) = clean w"
  by (simp add: saveNote_finish_def)

lemma clean_saveNote_update [simp]:
  "e \<noteq> [] \<Longrightarrow> row_ok ''notes'' p \<Longrightarrow> clean (snd (saveNote_update env e n p w)) = clean w"
  by (simp add: saveNote_update_def split: reply.split option.split)

lemma clean_saveNote_insert [simp]:
  "e \<noteq> [] \<Longrightarrow> row_ok ''notes'' p \<Longrightarrow> clean (snd (saveNote_insert env e p w)) = clean w"
  by (simp add: saveNote_insert_def split: reply.split option.split)

lemma clean_saveNote [simp]: "clean (snd (saveNote env w)) = clean w"
  by (simp add: saveNote_def Let_def split: option.split)

lemma clean_addOrder [simp]: "clean (snd (addOrder env raw w)) = clean w"
  by (simp add: addOrder_def Let_def case_prod_beta
      split: reply.split option.split outcome.split)

lemma clean_addResult [simp]: "clean (snd (addResult env w)) = clean w"
  by (simp add: addResult_def Let_def case_prod_beta
      split: reply.split option.split outcome.split)

lemma finite_or_null_ddx_prob: "finite_or_null (ddx_prob env raw)"
  by (cases "Number env raw") (simp_all add: ddx_prob_def isFinite_def Let_def)

lemma clean_addHumanDdx [simp]: "clean (snd (addHumanDdx env w)) = clean w"
  by (simp add: addHumanDdx_def Let_def case_prod_beta finite_or_null_ddx_prob
      split: reply.split option.split outcome.split)

lemma clean_runAi_reload [simp]: "clean (snd (runAi_reload env e w)) = clean w"
  by (simp add: runAi_reload_def case_prod_beta split: outcome.split)

lemma list_all_diagRows: "e \<noteq> [] \<Longrightarrow> list_all (row_ok ''ai_suggestions'') (diagRows e r res)"
  by (simp add: diagRows_def list_all_iff)

lemma list_all_orderRows: "e \<noteq> [] \<Longrightarrow> list_all (row_ok ''ai_suggestions'') (orderRows e r res)"
  by (simp add: orderRows_def list_all_iff)

lemma list_all_ddxRows: "e \<noteq> [] \<Longrightarrow> list_all (row_ok ''ddx_entries'') (ddxRows e r res t)"
  by (simp add: ddxRows_def list_all_iff)

lemma clean_runAi_fan_out [simp]:
  "e \<noteq> [] \<Longrightarrow> clean (snd (runAi_fan_out env e r res w)) = clean w"
  by (simp add: runAi_fan_out_def list_all_diagRows list_all_orderRows list_all_ddxRows
      split: reply.split option.split)

lemma clean_runAi_try [simp]: "e \<noteq> [] \<Longrightarrow> clean (snd (runAi_try env e w)) = clean w"
  by (simp add: runAi_try_def Let_def ai_context_of_def split: reply.split option.split)

lemma clean_runAi_settle [simp]: "clean (snd (runAi_settle r)) = clean (snd r)"
  by (cases r rule: runAi_settle.cases) simp_all

lemma clean_runAi [simp]: "clean (snd (runAi env w)) = clean w"
  by (simp add: runAi_def split: option.split)

lemma clean_foldl_logEvent:
  "(\<And>i. ev_encounter_id (args i) \<noteq> []) \<Longrightarrow>
   clean (foldl (\<lambda>w' i. logEvent env (args i) w') w ids) = clean w"
  by (induction ids arbitrary: w) simp_all

lemma clean_applyAiOrders [simp]: "clean (snd (applyAiOrders env w)) = clean w"
  by (simp add: applyAiOrders_def Let_def clean_foldl_logEvent list_all_iff
      split: reply.split option.split)

lemma clean_handler: "clean (snd (handler env a w)) = clean w"
  by (cases a) simp_all

lemma clean_perform: "clean (snd (perform env a w)) = clean w"
  by (simp add: perform_def case_prod_beta clean_handler)

lemma reachable_clean: "reachable env w \<Longrightarrow> clean w"
  by (induction rule: reachable.induct) (simp_all add: clean_mount clean_perform)

section \<open>What the trace invariant implies\<close>

lemma select_shapes_ok:
  "list_all (\<lambda>(t, c, k, ob, l). k = owning_key t
       \<and> (case ob of None \<Rightarrow> False
           | Some (col, ascending) \<Rightarrow>
               (col = ''created_at'' \<or> col = ''occurred_at'')
               \<and> (ascending \<longleftrightarrow> t = ''ai_suggestions''))) select_shapes"
  by (simp add: select_shapes_def owning_key_def)

lemma issued_select_as_issued: "issued e \<Longrightarrow> select_as_issued e"
proof (cases e)
  case (Req rq)
  assume i: "issued e"
  show ?thesis
  proof (cases rq)
    case (Select t c f ob l)
    with i Req have "(t, c, map_option fst f, ob, l) \<in> set select_shapes" by simp
    with select_shapes_ok show ?thesis
      unfolding list_all_iff Req Select by fastforce
  qed (simp_all add: Req)
qed simp_all

lemma row_ok_order_sent: "row_ok ''orders'' p \<Longrightarrow> order_sent p"
  by (cases p) simp_all

lemma issued_orders_only_sent: "issued e \<Longrightarrow> orders_only_sent e"
proof (cases e)
  case (Req rq)
  assume "issued e"
  with Req show ?thesis
    by (cases rq) (auto simp: list_all_iff row_ok_order_sent)
qed simp_all

section \<open>The views of the selected encounter\<close>

lemma views_empty_iff: "views_empty s = (views s = ([], [], [], [], None, [], []))"
  by (auto simp: views_empty_def views_def)

lemma frame_fetchPatients [simp]:
  "selectedEncounterId (ui (snd (fetchPatients env w))) = selectedEncounterId (ui w)"
  "selectedPatientId (ui (snd (fetchPatients env w))) = selectedPatientId (ui w)"
  "views (ui (snd (fetchPatients env w))) = views (ui w)"
  by (simp_all add: fetchPatients_def views_def split: reply.split option.split)

lemma frame_fetchEncounters [simp]:
  "selectedEncounterId (ui (snd (fetchEncounters env p w))) = selectedEncounterId (ui w)"
  "selectedPatientId (ui (snd (fetchEncounters env p w))) = selectedPatientId (ui w)"
  "views (ui (snd (fetchEncounters env p w))) = views (ui w)"
  by (simp_all add: fetchEncounters_def views_def split: reply.split option.split)

lemma frame_fetchEncounterData [simp]:
  "selectedEncounterId (ui (snd (fetchEncounterData env e w))) = selectedEncounterId (ui w)"
  "selectedPatientId (ui (snd (fetchEncounterData env e w))) = selectedPatientId (ui w)"
  by (simp_all add: fetchEncounterData_def Let_def)

lemma frame_fetchLatestAi [simp]:
  "selectedEncounterId (ui (snd (fetchLatestAi env e w))) = selectedEncounterId (ui w)"
  "selectedPatientId (ui (snd (fetchLatestAi env e w))) = selectedPatientId (ui w)"
  by (simp_all add: fetchLatestAi_def Let_def split: reply.split option.split list.split)

lemma frame_patient_effect [simp]:
  "selectedEncounterId (ui (patient_effect env p w)) =
     (if truthy p then selectedEncounterId (ui w) else None)"
  "selectedPatientId (ui (patient_effect env p w)) = selectedPatientId (ui w)"
  by (simp_all add: patient_effect_def truthy_def split: option.split)

lemma views_update [simp]:
  "views (patients_update f0 s) = views s"
  "views (selectedPatientId_update f1 s) = views s"
  "views (encounters_update f2 s) = views s"
  "views (selectedEncounterId_update f3 s) = views s"
  "views (isBusy_update f4 s) = views s"
  "views (isPatientModalOpen_update f5 s) = views s"
  "views (newPatientName_update f6 s) = views s"
  "views (newPatientMrn_update f7 s) = views s"
  "views (newPatientSex_update f8 s) = views s"
  "views (newEncounterLocation_update f9 s) = views s"
  "views (newEncounterArrivalAt_update f10 s) = views s"
  "views (editingNote_update f11 s) = views s"
  "views (orderInput_update f12 s) = views s"
  "views (resultCategory_update f13 s) = views s"
  "views (resultName_update f14 s) = views s"
  "views (resultValue_update f15 s) = views s"
  "views (resultUnit_update f16 s) = views s"
  "views (resultFlag_update f17 s) = views s"
  "views (ddxName_update f18 s) = views s"
  "views (ddxProb_update f19 s) = views s"
  "views (ddxReason_update f20 s) = views s"
  "views (isAiLoading_update f21 s) = views s"
  by (simp_all add: views_def)

lemma views_patient_effect [simp]: "views (ui (patient_effect env p w)) = views (ui w)"
  by (simp add: patient_effect_def split: option.split)

lemma frame_encounter_effect [simp]:
  "selectedEncounterId (ui (encounter_effect env e w)) = selectedEncounterId (ui w)"
  "selectedPatientId (ui (encounter_effect env e w)) = selectedPatientId (ui w)"
  by (simp_all add: encounter_effect_def)

lemma encounter_effect_clears:
  "\<not> truthy e \<Longrightarrow> views_empty (ui (encounter_effect env e w))"
  by (simp add: encounter_effect_def views_empty_def)

lemma guard_saveNote:
  "\<not> truthy (selectedEncounterId (ui w)) \<Longrightarrow> saveNote env w = (Returned, w)"
  by (cases "selectedEncounterId (ui w)") (simp_all add: saveNote_def truthy_def split: option.split)

lemma guard_addOrder:
  "\<not> truthy (selectedEncounterId (ui w)) \<Longrightarrow> addOrder env raw w = (Returned, w)"
  by (cases "selectedEncounterId (ui w)") (simp_all add: addOrder_def truthy_def)

lemma guard_addResult:
  "\<not> truthy (selectedEncounterId (ui w)) \<Longrightarrow> addResult env w = (Returned, w)"
  by (cases "selectedEncounterId (ui w)") (simp_all add: addResult_def truthy_def)

lemma guard_addHumanDdx:
  "\<not> truthy (selectedEncounterId (ui w)) \<Longrightarrow> addHumanDdx env w = (Returned, w)"
  by (cases "selectedEncounterId (ui w)") (simp_all add: addHumanDdx_def truthy_def)

lemma guard_runAi:
  "\<not> truthy (selectedEncounterId (ui w)) \<Longrightarrow> runAi env w = (Returned, w)"
  by (cases "selectedEncounterId (ui w)") (simp_all add: runAi_def truthy_def)

lemma guard_applyAiOrders:
  "\<not> truthy (selectedEncounterId (ui w)) \<Longrightarrow> applyAiOrders env w = (Returned, w)"
  by (cases "selectedEncounterId (ui w)") (simp_all add: applyAiOrders_def truthy_def)

lemma enc_saveNote_finish [simp]:
  "selectedEncounterId (ui (snd (saveNote_finish env e w))) = selectedEncounterId (ui w)"
  by (simp add: saveNote_finish_def)

lemma enc_saveNote_update [simp]:
  "selectedEncounterId (ui (snd (saveNote_update env e n p w))) = selectedEncounterId (ui w)"
  by (simp add: saveNote_update_def split: reply.split option.split)

lemma enc_saveNote_insert [simp]:
  "selectedEncounterId (ui (snd (saveNote_insert env e p w))) = selectedEncounterId (ui w)"
  by (simp add: saveNote_insert_def split: reply.split option.split)

lemma enc_saveNote [simp]:
  "selectedEncounterId (ui (snd (saveNote env w))) = selectedEncounterId (ui w)"
  by (simp add: saveNote_def Let_def split: option.split)

lemma enc_addOrder [simp]:
  "selectedEncounterId (ui (snd (addOrder env raw w))) = selectedEncounterId (ui w)"
  by (simp add: addOrder_def Let_def case_prod_beta split: reply.split option.split)

lemma enc_addResult [simp]:
  "selectedEncounterId (ui (snd (addResult env w))) = selectedEncounterId (ui w)"
  by (simp add: addResult_def Let_def split: reply.split option.split)

lemma enc_addHumanDdx [simp]:
  "selectedEncounterId (ui (snd (addHumanDdx env w))) = selectedEncounterId (ui w)"
  by (simp add: addHumanDdx_def Let_def split: reply.split option.split)

lemma enc_runAi_reload [simp]:
  "selectedEncounterId (ui (snd (runAi_reload env e w))) = selectedEncounterId (ui w)"
  by (simp add: runAi_reload_def case_prod_beta split: outcome.split)

lemma enc_runAi_fan_out [simp]:
  "selectedEncounterId (ui (snd (runAi_fan_out env e r res w))) = selectedEncounterId (ui w)"
  by (simp add: runAi_fan_out_def split: reply.split option.split)

lemma enc_runAi_try [simp]:
  "selectedEncounterId (ui (snd (runAi_try env e w))) = selectedEncounterId (ui w)"
  by (simp add: runAi_try_def Let_def split: reply.split option.split)

lemma enc_runAi_settle [simp]:
  "selectedEncounterId (ui (snd (runAi_settle r))) = selectedEncounterId (ui (snd r))"
  by (cases r rule: runAi_settle.cases) simp_all

lemma enc_runAi [simp]:
  "selectedEncounterId (ui (snd (runAi env w))) = selectedEncounterId (ui w)"
  by (simp add: runAi_def split: option.split)

lemma ui_foldl_logEvent [simp]:
  "ui (foldl (\<lambda>w' i. logEvent env (args i) w') w ids) = ui w"
  by (induction ids arbitrary: w) simp_all

lemma enc_applyAiOrders [simp]:
  "selectedEncounterId (ui (snd (applyAiOrders env w))) = selectedEncounterId (ui w)"
  by (simp add: applyAiOrders_def Let_def split: reply.split option.split)

lemma frame_createPatient [simp]:
  "selectedEncounterId (ui (snd (createPatient env w))) = selectedEncounterId (ui w)"
  "views (ui (snd (createPatient env w))) = views (ui w)"
  by (simp_all add: createPatient_def Let_def case_prod_beta
      split: reply.split option.split outcome.split)

lemma views_createEncounter [simp]:
  "views (ui (snd (createEncounter env w))) = views (ui w)"
  by (simp add: createEncounter_def Let_def case_prod_beta
      split: reply.split option.split outcome.split)

lemma views_apply_edit [simp]: "views (apply_edit ed s) = views s"
  and enc_apply_edit [simp]: "selectedEncounterId (apply_edit ed s) = selectedEncounterId s"
  by (cases ed; simp)+


section \<open>The properties\<close>

lemma run_effects_same [simp]: "run_effects env (ui w) w = w"
  by (simp add: run_effects_def Let_def)

lemma reachable_demo_loaded:
  "reachable demo_remote (snd (perform demo_remote (ClickEncounter ''e1'') (mount demo_remote)))"
  by (rule reachable.acted [OF reachable.mounted]) simp

text \<open>
  Claim C5, as amended. In every world the component can reach, each select it has issued
  is ordered by a timestamp column (\<open>created_at\<close> or \<open>occurred_at\<close>) and filtered by the
  key of the owning row, except that the root table \<open>patients\<close> has no owner and is read
  unfiltered; the order is descending for every table but \<open>ai_suggestions\<close>, whose rows
  for the latest run are read in ascending order of \<open>created_at\<close>.
\<close>

theorem selects_ordered_and_owned:
  "reachable env w \<Longrightarrow> list_all select_as_issued (trace w)"
  using reachable_clean [of env w] issued_select_as_issued
  by (auto simp: clean_def list_all_iff)

text \<open>The same, for the world reached by opening the encounter \<open>e1\<close> after mounting.\<close>

theorem selects_ordered_and_owned_witness:
  "reachable demo_remote (snd (perform demo_remote (ClickEncounter ''e1'') (mount demo_remote)))
   \<and> list_all select_as_issued
        (trace (snd (perform demo_remote (ClickEncounter ''e1'') (mount demo_remote))))"
  using selects_ordered_and_owned [OF reachable_demo_loaded] reachable_demo_loaded by simp

lemma trace_fetchLatestAi_demo:
  "trace (snd (fetchLatestAi demo_remote ''e1'' w)) = trace w @
   [Req (Select ''ai_runs'' ''id,encounter_id,provider,model,status,created_at''
                (Some (''encounter_id'', ''e1'')) (Some (''created_at'', False)) (Some 1)),
    Req (Select ''ai_suggestions'' ''*'' (Some (''ai_run_id'', ''run1''))
                                  (Some (''created_at'', True)) None)]"
  by (simp add: fetchLatestAi_def demo_remote_def demo_run_def Let_def)

text \<open>
  Claim C5 as stated fails: after the encounter \<open>e1\<close> is opened, the last request of the
  client is the select of the suggestions of the latest run, and it asks for ascending
  order (line 285 of App.tsx), so it is not a select ordered descending.
\<close>

theorem suggestions_select_ascending:
  "last (trace (snd (perform demo_remote (ClickEncounter ''e1'') (mount demo_remote)))) =
     Req (Select ''ai_suggestions'' ''*'' (Some (''ai_run_id'', ''run1''))
            (Some (''created_at'', True)) None)
   \<and> \<not> select_filtered_desc
         (last (trace (snd (perform demo_remote (ClickEncounter ''e1'') (mount demo_remote)))))"
proof -
  have "selectedEncounterId (ui (mount demo_remote)) = None"
    by (simp add: mount_def Let_def initial_state_def)
  then have "last (trace (snd (perform demo_remote (ClickEncounter ''e1'') (mount demo_remote)))) =
     Req (Select ''ai_suggestions'' ''*'' (Some (''ai_run_id'', ''run1''))
            (Some (''created_at'', True)) None)"
    by (simp add: perform_def run_effects_def Let_def encounter_effect_def truthy_def
        trace_fetchLatestAi_demo)
  then show ?thesis by simp
qed

text \<open>
  Claim C6. In every world the component can reach, every row it has inserted into
  \<open>orders\<close>, from the free text of \<open>addOrder\<close> or from the suggestions of
  \<open>applyAiOrders\<close>, has status \<open>sent\<close>, and no update was ever sent to \<open>orders\<close>: the
  status is not changed afterwards.
\<close>

theorem orders_always_sent:
  "reachable env w \<Longrightarrow> list_all orders_only_sent (trace w)"
  using reachable_clean [of env w] issued_orders_only_sent
  by (auto simp: clean_def list_all_iff)

text \<open>
  Claim C7. When no suggestion of type order is selected, \<open>applyAiOrders\<close> returns at once:
  the world is unchanged, so nothing is inserted, no event is logged and nothing is
  reloaded; the action as a whole (the handler and the effects after it) changes nothing
  either.
\<close>

theorem apply_nothing_is_noop:
  "picks (ui w) = [] \<Longrightarrow>
   applyAiOrders env w = (Returned, w) \<and> perform env ApplyAiOrders w = (Returned, w)"
  by (simp add: applyAiOrders_def perform_def split: option.split)

lemma row_ok_names_encounter: "row_ok t p \<Longrightarrow> names_encounter p"
  by (cases p) simp_all

lemma issued_writes_name_encounter: "issued e \<Longrightarrow> writes_name_encounter e"
proof (cases e)
  case (Req rq)
  assume "issued e"
  with Req show ?thesis
    by (cases rq) (auto simp: list_all_iff row_ok_names_encounter)
qed simp_all

lemma row_ok_human_prob_finite: "row_ok t p \<Longrightarrow> human_prob_finite p"
  by (cases p) simp_all

lemma issued_human_probs_finite: "issued e \<Longrightarrow> human_probs_finite e"
proof (cases e)
  case (Req rq)
  assume "issued e"
  with Req show ?thesis
    by (cases rq) (auto simp: list_all_iff row_ok_human_prob_finite)
qed simp_all

text \<open>
  Claim C9. With no encounter selected (the identifier null or empty), \<open>saveNote\<close>,
  \<open>addOrder\<close>, \<open>addResult\<close>, \<open>addHumanDdx\<close>, \<open>runAi\<close> and \<open>applyAiOrders\<close> return at
  once and leave the world as it was: no insert, no update, no change of state. And in
  every world the component can reach, every row it has written for an encounter names
  one: its encounter reference is not empty.
\<close>

theorem encounter_guards:
  "(\<not> truthy (selectedEncounterId (ui w)) \<longrightarrow>
      saveNote env w = (Returned, w) \<and> addOrder env rawInput w = (Returned, w)
      \<and> addResult env w = (Returned, w) \<and> addHumanDdx env w = (Returned, w)
      \<and> runAi env w = (Returned, w) \<and> applyAiOrders env w = (Returned, w))
   \<and> (reachable env w \<longrightarrow> list_all writes_name_encounter (trace w))"
proof -
  have "reachable env w \<Longrightarrow> list_all writes_name_encounter (trace w)"
    using reachable_clean [of env w] issued_writes_name_encounter
    by (auto simp: clean_def list_all_iff)
  then show ?thesis
    by (simp add: guard_saveNote guard_addOrder guard_addResult guard_addHumanDdx guard_runAi
        guard_applyAiOrders)
qed

lemma trace_fetchEncounterData_prefix:
  "\<exists>new. trace (snd (fetchEncounterData env e w)) = trace w @ new"
  by (simp add: fetchEncounterData_def Let_def console_error_if_def split: option.split)

lemma nth_fetchEncounterData:
  "i < length (trace w) \<Longrightarrow> trace (snd (fetchEncounterData env e w)) ! i = trace w ! i"
  using trace_fetchEncounterData_prefix [of env e w] by (auto simp: nth_append)

lemma length_fetchEncounterData:
  "i < length (trace w) \<Longrightarrow> i < length (trace (snd (fetchEncounterData env e w)))"
  using trace_fetchEncounterData_prefix [of env e w] by auto

lemma addOrder_first_effect:
  assumes "selectedEncounterId (ui w) = Some eid" "eid \<noteq> []" "trim env rawInput \<noteq> []"
  shows "\<exists>rest. new_effects w (snd (addOrder env rawInput w)) =
     Req (Insert ''orders''
            [OrderNew eid (fst (parse_order env (trim env rawInput))) (snd (parse_order env (trim env rawInput)))
               ''sent'' (now env (trace w)) None]
            (ReturnSingle ''*'')) # rest"
proof -
  let ?rq = "Req (Insert ''orders''
            [OrderNew eid (fst (parse_order env (trim env rawInput))) (snd (parse_order env (trim env rawInput)))
               ''sent'' (now env (trace w)) None]
            (ReturnSingle ''*''))"
  let ?t = "trace (snd (addOrder env rawInput w))"
  have "length (trace w) < length ?t \<and> ?t ! length (trace w) = ?rq"
    using assms
    by (simp add: addOrder_def Let_def case_prod_beta trace_logEvent nth_fetchEncounterData
        length_fetchEncounterData nth_append split: reply.split option.split)
  then have "drop (length (trace w)) ?t = ?rq # drop (Suc (length (trace w))) ?t"
    using Cons_nth_drop_Suc [of "length (trace w)" ?t] by simp
  then show ?thesis by (simp add: new_effects_def)
qed

lemma demo_world_selected [simp]:
  "selectedEncounterId (ui demo_world) = Some ''e1''"
  "trace demo_world = []"
  "isAiLoading (ui demo_world) = False"
  "selectedAiOrderSuggestionIds (ui demo_world) = []"
  by (simp_all add: demo_world_def initial_state_def)

lemma demo_now [simp]: "now demo_remote h = ''t1''"
  by (simp add: demo_remote_def)

text \<open>Claim C7 at a world with a loaded encounter and no suggestion ticked.\<close>

theorem apply_nothing_is_noop_witness:
  "picks (ui demo_world) = []
   \<and> applyAiOrders demo_remote demo_world = (Returned, demo_world)
   \<and> perform demo_remote ApplyAiOrders demo_world = (Returned, demo_world)"
proof -
  have p: "picks (ui demo_world) = []" by (simp add: picks_def)
  from apply_nothing_is_noop [OF p, of demo_remote] p show ?thesis by simp
qed

text \<open>Claim C9 right after mounting, when no encounter is selected yet.\<close>

theorem encounter_guards_witness:
  "\<not> truthy (selectedEncounterId (ui (mount demo_remote)))
   \<and> saveNote demo_remote (mount demo_remote) = (Returned, mount demo_remote)
   \<and> addOrder demo_remote ''CBC'' (mount demo_remote) = (Returned, mount demo_remote)
   \<and> addHumanDdx demo_remote (mount demo_remote) = (Returned, mount demo_remote)
   \<and> runAi demo_remote (mount demo_remote) = (Returned, mount demo_remote)
   \<and> applyAiOrders demo_remote (mount demo_remote) = (Returned, mount demo_remote)
   \<and> reachable demo_remote (mount demo_remote)
   \<and> list_all writes_name_encounter (trace (mount demo_remote))"
proof -
  have n: "\<not> truthy (selectedEncounterId (ui (mount demo_remote)))"
    by (simp add: mount_def Let_def initial_state_def truthy_def)
  show ?thesis
    using encounter_guards [where w = "mount demo_remote" and env = demo_remote
        and rawInput = "''CBC''"] n reachable.mounted [of demo_remote]
    by simp
qed

lemma notes_fetchLatestAi [simp]:
  "notes_state (ui (snd (fetchLatestAi env e w))) = notes_state (ui w)"
  by (simp add: fetchLatestAi_def Let_def split: reply.split option.split list.split)

lemma demo_loaded_state:
  "selectedEncounterId (ui (snd (perform demo_remote (ClickEncounter ''e1'') (mount demo_remote))))
     = Some ''e1''"
  "notes_state (ui (snd (perform demo_remote (ClickEncounter ''e1'') (mount demo_remote))))
     = [demo_note]"
proof -
  have m: "selectedEncounterId (ui (mount demo_remote)) = None"
    by (simp add: mount_def Let_def initial_state_def)
  show "selectedEncounterId (ui (snd (perform demo_remote (ClickEncounter ''e1'') (mount demo_remote))))
     = Some ''e1''"
    using m by (simp add: perform_def run_effects_def Let_def)
  show "notes_state (ui (snd (perform demo_remote (ClickEncounter ''e1'') (mount demo_remote))))
     = [demo_note]"
    using m
    by (simp add: perform_def run_effects_def Let_def encounter_effect_def truthy_def)
       (simp add: fetchEncounterData_def Let_def demo_remote_def or_empty_def)
qed

lemma pat_addOrder [simp]:
  "selectedPatientId (ui (snd (addOrder env raw w))) = selectedPatientId (ui w)"
  by (simp add: addOrder_def Let_def case_prod_beta split: reply.split option.split)

lemma perform_AddOrder:
  "perform env AddOrder w = addOrder env (orderInput (ui w)) w"
  by (simp add: perform_def case_prod_beta run_effects_def Let_def prod_eq_iff)

lemma demo_order_typed:
  "selectedEncounterId
     (ui (snd (perform demo_remote (Edit (SetOrderInput ''cbc''))
        (snd (perform demo_remote (ClickEncounter ''e1'') (mount demo_remote)))))) = Some ''e1''"
  "orderInput
     (ui (snd (perform demo_remote (Edit (SetOrderInput ''cbc''))
        (snd (perform demo_remote (ClickEncounter ''e1'') (mount demo_remote)))))) = ''cbc''"
  using demo_loaded_state by (simp_all add: perform_def run_effects_def Let_def)

lemma reachable_demo_ordered:
  "reachable demo_remote
     (snd (perform demo_remote AddOrder
        (snd (perform demo_remote (Edit (SetOrderInput ''cbc''))
           (snd (perform demo_remote (ClickEncounter ''e1'') (mount demo_remote)))))))"
  by (intro reachable.acted reachable.mounted) simp_all

lemma demo_order_inserted:
  "Req (Insert ''orders'' [OrderNew ''e1'' (Some ''CBC'') ''General Order'' ''sent'' ''t1'' None]
          (ReturnSingle ''*''))
   \<in> set (trace (snd (perform demo_remote AddOrder
        (snd (perform demo_remote (Edit (SetOrderInput ''cbc''))
           (snd (perform demo_remote (ClickEncounter ''e1'') (mount demo_remote))))))))"
proof -
  let ?w = "snd (perform demo_remote (Edit (SetOrderInput ''cbc''))
           (snd (perform demo_remote (ClickEncounter ''e1'') (mount demo_remote))))"
  have t: "trim demo_remote ''cbc'' = ''cbc''"
    by (simp add: demo_remote_def ascii_trim_def ascii_is_space_def)
  have p: "parse_order demo_remote ''cbc'' = (Some ''CBC'', ''General Order'')"
    by (simp add: parse_order_def demo_remote_def ascii_toUpperCase_def
        ascii_toUpperCase_char_def truthy_def)
  obtain rest where "new_effects ?w (snd (addOrder demo_remote ''cbc'' ?w)) =
      Req (Insert ''orders'' [OrderNew ''e1'' (Some ''CBC'') ''General Order'' ''sent'' ''t1'' None]
          (ReturnSingle ''*'')) # rest"
    using addOrder_first_effect [where w = ?w and eid = "''e1''" and rawInput = "''cbc''"
        and env = demo_remote] demo_order_typed
    by (auto simp: t p)
  then have "Req (Insert ''orders'' [OrderNew ''e1'' (Some ''CBC'') ''General Order'' ''sent'' ''t1'' None]
          (ReturnSingle ''*'')) \<in> set (drop (length (trace ?w)) (trace (snd (addOrder demo_remote ''cbc'' ?w))))"
    by (simp add: new_effects_def)
  then show ?thesis
    by (simp add: perform_AddOrder demo_order_typed in_set_dropD)
qed

text \<open>
  Claim C6 at the world reached by opening the encounter \<open>e1\<close>, typing \<open>cbc\<close> and
  adding the order: the insert of the order is in the trace.
\<close>

theorem orders_always_sent_witness:
  "reachable demo_remote
     (snd (perform demo_remote AddOrder
        (snd (perform demo_remote (Edit (SetOrderInput ''cbc''))
           (snd (perform demo_remote (ClickEncounter ''e1'') (mount demo_remote)))))))
   \<and> Req (Insert ''orders'' [OrderNew ''e1'' (Some ''CBC'') ''General Order'' ''sent'' ''t1'' None]
          (ReturnSingle ''*''))
      \<in> set (trace (snd (perform demo_remote AddOrder
        (snd (perform demo_remote (Edit (SetOrderInput ''cbc''))
           (snd (perform demo_remote (ClickEncounter ''e1'') (mount demo_remote))))))))
   \<and> list_all orders_only_sent
        (trace (snd (perform demo_remote AddOrder
        (snd (perform demo_remote (Edit (SetOrderInput ''cbc''))
           (snd (perform demo_remote (ClickEncounter ''e1'') (mount demo_remote))))))))"
  using orders_always_sent [OF reachable_demo_ordered] reachable_demo_ordered demo_order_inserted
  by simp

lemma with_audit_fields [simp]:
  "now (with_audit g env) = now env"
  "toISOString (with_audit g env) = toISOString env"
  "trim (with_audit g env) = trim env"
  "toUpperCase (with_audit g env) = toUpperCase env"
  "Number (with_audit g env) = Number env"
  "patients_of (with_audit g env) = patients_of env"
  "encounters_of (with_audit g env) = encounters_of env"
  "notes_of (with_audit g env) = notes_of env"
  "orders_of (with_audit g env) = orders_of env"
  "results_of (with_audit g env) = results_of env"
  "ddx_of (with_audit g env) = ddx_of env"
  "ai_runs_of (with_audit g env) = ai_runs_of env"
  "ai_suggestions_of (with_audit g env) = ai_suggestions_of env"
  "inserted_patient (with_audit g env) = inserted_patient env"
  "inserted_encounter (with_audit g env) = inserted_encounter env"
  "inserted_note (with_audit g env) = inserted_note env"
  "inserted_order (with_audit g env) = inserted_order env"
  "inserted_result (with_audit g env) = inserted_result env"
  "inserted_ddx (with_audit g env) = inserted_ddx env"
  "inserted_ai_run (with_audit g env) = inserted_ai_run env"
  "inserted_ids (with_audit g env) = inserted_ids env"
  "written (with_audit g env) = written env"
  "invoked (with_audit g env) = invoked env"
  by (simp_all add: with_audit_def)

lemma logEvent_eq:
  "logEvent env args w =
     emit (Req (Insert ''patient_events''
        [PatientEventNew (ev_encounter_id args) (ev_actor_type args) (ev_event_type args)
           (ev_entity_table args) (ev_entity_id args) (ev_summary args)
           (case ev_payload args of None \<Rightarrow> [] | Some p \<Rightarrow> p)
           (case ev_occurred_at args of None \<Rightarrow> now env (trace w) | Some t \<Rightarrow> t)] NoReturn)) w"
  by (simp add: logEvent_def split: reply.split)

lemma audit_logEvent [simp]: "logEvent (with_audit g env) args w = logEvent env args w"
  by (simp add: logEvent_eq cong: option.case_cong)

lemma audit_fetchPatients [simp]: "fetchPatients (with_audit g env) = fetchPatients env"
  by (intro ext) (simp add: fetchPatients_def Let_def cong: if_cong reply.case_cong option.case_cong outcome.case_cong list.case_cong prod.case_cong)

lemma audit_fetchEncounters [simp]: "fetchEncounters (with_audit g env) = fetchEncounters env"
  by (intro ext) (simp add: fetchEncounters_def Let_def cong: if_cong reply.case_cong option.case_cong outcome.case_cong list.case_cong prod.case_cong)

lemma audit_fetchEncounterData [simp]:
  "fetchEncounterData (with_audit g env) = fetchEncounterData env"
  by (intro ext) (simp add: fetchEncounterData_def Let_def cong: if_cong reply.case_cong option.case_cong outcome.case_cong list.case_cong prod.case_cong)

lemma audit_fetchLatestAi [simp]: "fetchLatestAi (with_audit g env) = fetchLatestAi env"
  by (intro ext) (simp add: fetchLatestAi_def Let_def cong: if_cong reply.case_cong option.case_cong outcome.case_cong list.case_cong prod.case_cong)

lemma audit_patient_effect [simp]: "patient_effect (with_audit g env) = patient_effect env"
  by (intro ext) (simp add: patient_effect_def Let_def cong: if_cong reply.case_cong option.case_cong outcome.case_cong list.case_cong prod.case_cong)

lemma audit_encounter_effect [simp]: "encounter_effect (with_audit g env) = encounter_effect env"
  by (intro ext) (simp add: encounter_effect_def Let_def cong: if_cong reply.case_cong option.case_cong outcome.case_cong list.case_cong prod.case_cong)

lemma audit_run_effects [simp]: "run_effects (with_audit g env) = run_effects env"
  by (intro ext) (simp add: run_effects_def Let_def cong: if_cong reply.case_cong option.case_cong outcome.case_cong list.case_cong prod.case_cong)

lemma audit_createPatient [simp]: "createPatient (with_audit g env) = createPatient env"
  by (intro ext) (simp add: createPatient_def Let_def cong: if_cong reply.case_cong option.case_cong outcome.case_cong list.case_cong prod.case_cong)

lemma audit_createEncounter [simp]: "createEncounter (with_audit g env) = createEncounter env"
  by (intro ext) (simp add: createEncounter_def Let_def cong: if_cong reply.case_cong option.case_cong outcome.case_cong list.case_cong prod.case_cong)

lemma audit_saveNote_finish [simp]: "saveNote_finish (with_audit g env) = saveNote_finish env"
  by (intro ext) (simp add: saveNote_finish_def Let_def cong: if_cong reply.case_cong option.case_cong outcome.case_cong list.case_cong prod.case_cong)

lemma audit_saveNote_update [simp]: "saveNote_update (with_audit g env) = saveNote_update env"
  by (intro ext) (simp add: saveNote_update_def Let_def cong: if_cong reply.case_cong option.case_cong outcome.case_cong list.case_cong prod.case_cong)

lemma audit_saveNote_insert [simp]: "saveNote_insert (with_audit g env) = saveNote_insert env"
  by (intro ext) (simp add: saveNote_insert_def Let_def cong: if_cong reply.case_cong option.case_cong outcome.case_cong list.case_cong prod.case_cong)

lemma audit_saveNote [simp]: "saveNote (with_audit g env) = saveNote env"
  by (intro ext) (simp add: saveNote_def Let_def cong: if_cong reply.case_cong option.case_cong outcome.case_cong list.case_cong prod.case_cong)

lemma audit_parse_order [simp]: "parse_order (with_audit g env) = parse_order env"
  by (intro ext) (simp add: parse_order_def Let_def cong: if_cong reply.case_cong option.case_cong outcome.case_cong list.case_cong prod.case_cong)

lemma audit_addOrder [simp]: "addOrder (with_audit g env) = addOrder env"
  by (intro ext) (simp add: addOrder_def Let_def cong: if_cong reply.case_cong option.case_cong outcome.case_cong list.case_cong prod.case_cong)

lemma audit_addResult [simp]: "addResult (with_audit g env) = addResult env"
  by (intro ext) (simp add: addResult_def Let_def cong: if_cong reply.case_cong option.case_cong outcome.case_cong list.case_cong prod.case_cong)

lemma audit_ddx_prob [simp]: "ddx_prob (with_audit g env) = ddx_prob env"
  by (intro ext) (simp add: ddx_prob_def Let_def cong: if_cong reply.case_cong option.case_cong outcome.case_cong list.case_cong prod.case_cong)

lemma audit_addHumanDdx [simp]: "addHumanDdx (with_audit g env) = addHumanDdx env"
  by (intro ext) (simp add: addHumanDdx_def Let_def cong: if_cong reply.case_cong option.case_cong outcome.case_cong list.case_cong prod.case_cong)

lemma audit_runAi_reload [simp]: "runAi_reload (with_audit g env) = runAi_reload env"
  by (intro ext) (simp add: runAi_reload_def Let_def cong: if_cong reply.case_cong option.case_cong outcome.case_cong list.case_cong prod.case_cong)

lemma audit_runAi_fan_out [simp]: "runAi_fan_out (with_audit g env) = runAi_fan_out env"
  by (intro ext) (simp add: runAi_fan_out_def Let_def cong: if_cong reply.case_cong option.case_cong outcome.case_cong list.case_cong prod.case_cong)

lemma audit_runAi_try [simp]: "runAi_try (with_audit g env) = runAi_try env"
  by (intro ext) (simp add: runAi_try_def Let_def cong: if_cong reply.case_cong option.case_cong outcome.case_cong list.case_cong prod.case_cong)

lemma audit_runAi [simp]: "runAi (with_audit g env) = runAi env"
  by (intro ext) (simp add: runAi_def Let_def cong: if_cong reply.case_cong option.case_cong outcome.case_cong list.case_cong prod.case_cong)

lemma audit_applyAiOrders [simp]: "applyAiOrders (with_audit g env) = applyAiOrders env"
  by (intro ext) (simp add: applyAiOrders_def Let_def cong: if_cong reply.case_cong option.case_cong outcome.case_cong list.case_cong prod.case_cong)

lemma audit_handler: "handler (with_audit g env) a w = handler env a w"
  by (cases a) simp_all

lemma ai_context_of_flags [simp]:
  "ai_context_of (s\<lparr>isAiLoading := b, selectedAiOrderSuggestionIds := ids\<rparr>) eid = ai_context_of s eid"
  by (simp add: ai_context_of_def)

text \<open>
  Claim C2. When the call of the AI function fails (its promise rejects, or it resolves
  with an error), \<open>runAi\<close> returns after an alert; nothing it did was an insert or an
  update, and the notes, orders, results and DDX lists are as before. (The ticked
  suggestion ids were cleared before the call.)
\<close>

theorem failed_ai_call_persists_nothing:
  assumes "selectedEncounterId (ui w) = Some eid" and "eid \<noteq> []" and "\<not> isAiLoading (ui w)"
    and "failed (invoked env (trace w @ [Req (Invoke ''ai-analyze'' (ai_context_of (ui w) eid))]))"
  shows "fst (runAi env w) = Returned
       \<and> list_ex is_alert (new_effects w (snd (runAi env w)))
       \<and> \<not> list_ex is_write (new_effects w (snd (runAi env w)))
       \<and> notes_state (ui (snd (runAi env w))) = notes_state (ui w)
       \<and> orders (ui (snd (runAi env w))) = orders (ui w)
       \<and> results (ui (snd (runAi env w))) = results (ui w)
       \<and> ddx (ui (snd (runAi env w))) = ddx (ui w)"
proof (cases "invoked env (trace w @ [Req (Invoke ''ai-analyze'' (ai_context_of (ui w) eid))])")
  case Rejected
  with assms(1-3) show ?thesis
    by (simp add: runAi_def runAi_try_def Let_def new_effects_def)
next
  case (Resolved d e)
  with assms(4) obtain msg where "e = Some msg" by auto
  with Resolved assms(1-3) show ?thesis
    by (simp add: runAi_def runAi_try_def Let_def new_effects_def)
qed

lemma world_eqI: "ui a = ui b \<Longrightarrow> trace a = trace b \<Longrightarrow> a = (b :: world)"
  by (cases a, cases b) simp

lemma trace_console_error_if:
  "trace (console_error_if l e w) = trace w @ (case e of None \<Rightarrow> [] | Some m \<Rightarrow> [ConsoleError l m])"
  by (simp add: console_error_if_def split: option.split)

lemma trace_fetchLatestAi_selects:
  "\<exists>new. trace (snd (fetchLatestAi env e w)) = trace w @ new \<and> \<not> list_ex is_write new"
  by (simp add: fetchLatestAi_def Let_def split: reply.split option.split list.split)

lemma trace_fetchEncounterData_selects:
  "\<exists>new. trace (snd (fetchEncounterData env e w)) = trace w @ new \<and> \<not> list_ex is_write new"
  by (simp add: fetchEncounterData_def Let_def console_error_if_def split: option.split)

lemma reload_writes_nothing:
  "\<not> list_ex is_write (new_effects w (snd (runAi_reload env e w)))"
proof -
  obtain n1 where n1: "trace (snd (fetchEncounterData env e w)) = trace w @ n1"
      "\<not> list_ex is_write n1"
    using trace_fetchEncounterData_selects by blast
  obtain n2 where n2: "trace (snd (fetchLatestAi env e (snd (fetchEncounterData env e w)))) =
      trace (snd (fetchEncounterData env e w)) @ n2" "\<not> list_ex is_write n2"
    using trace_fetchLatestAi_selects by blast
  show ?thesis
    using n1 n2
    by (simp add: runAi_reload_def case_prod_beta new_effects_def split: outcome.split)
qed

text \<open>Claim C2 when the AI function answers with an error.\<close>

theorem failed_ai_call_persists_nothing_witness:
  "selectedEncounterId (ui demo_world) = Some ''e1'' \<and> \<not> isAiLoading (ui demo_world)
   \<and> failed (invoked ai_failing
        (trace demo_world @ [Req (Invoke ''ai-analyze'' (ai_context_of (ui demo_world) ''e1''))]))
   \<and> fst (runAi ai_failing demo_world) = Returned
   \<and> list_ex is_alert (new_effects demo_world (snd (runAi ai_failing demo_world)))
   \<and> \<not> list_ex is_write (new_effects demo_world (snd (runAi ai_failing demo_world)))
   \<and> notes_state (ui (snd (runAi ai_failing demo_world))) = [demo_note]
   \<and> orders (ui (snd (runAi ai_failing demo_world))) = [demo_order]
   \<and> results (ui (snd (runAi ai_failing demo_world))) = [demo_result]
   \<and> ddx (ui (snd (runAi ai_failing demo_world))) = [demo_ddx]"
proof -
  have f: "failed (invoked ai_failing
        (trace demo_world @ [Req (Invoke ''ai-analyze'' (ai_context_of (ui demo_world) ''e1''))]))"
    by (simp add: ai_failing_def demo_remote_def)
  have s: "notes_state (ui demo_world) = [demo_note]" "orders (ui demo_world) = [demo_order]"
    "results (ui demo_world) = [demo_result]" "ddx (ui demo_world) = [demo_ddx]"
    by (simp_all add: demo_world_def initial_state_def)
  from failed_ai_call_persists_nothing [where w = demo_world and eid = "''e1''" and env = ai_failing, OF _ _ _ f]
  show ?thesis using f s by simp
qed

text \<open>
  Claim C4. \<open>logEvent\<close> does one thing whatever the store answers: it sends the insert
  into \<open>patient_events\<close>; it changes no state, alerts nothing and throws nothing. Every
  action ends in the same way, in the same state and with the same trace, whatever the
  replies to the audit inserts are: a failed audit insert cannot be told from a successful
  one, so it neither blocks nor undoes the write it documents. For \<open>addOrder\<close>: once the
  order is inserted the operation goes on to the reload, with the insert of the order in
  its trace, whatever the audit insert does.
\<close>

theorem audit_is_best_effort:
  "ui (logEvent env args w) = ui w
   \<and> (\<exists>row. new_effects w (logEvent env args w) = [Req (Insert ''patient_events'' [row] NoReturn)])
   \<and> perform (with_audit g env) a w = perform env a w
   \<and> (selectedEncounterId (ui w) = Some eid \<and> eid \<noteq> [] \<and> trim env rawInput \<noteq> []
        \<and> inserted_order env
             (trace w @ [Req (Insert ''orders''
                [OrderNew eid (fst (parse_order env (trim env rawInput)))
                   (snd (parse_order env (trim env rawInput))) ''sent'' (now env (trace w)) None]
                (ReturnSingle ''*''))]) = Resolved (Some row) None \<longrightarrow>
        (\<exists>event. addOrder (with_audit g env) rawInput w =
           fetchEncounterData env eid
             (set_ui (\<lambda>s. s\<lparr>orderInput := []\<rparr>)
                (emit (Req (Insert ''patient_events'' [event] NoReturn))
                   (emit (Req (Insert ''orders''
                      [OrderNew eid (fst (parse_order env (trim env rawInput)))
                         (snd (parse_order env (trim env rawInput))) ''sent'' (now env (trace w)) None]
                      (ReturnSingle ''*''))) w)))))"
proof -
  have a: "\<exists>row. new_effects w (logEvent env args w) = [Req (Insert ''patient_events'' [row] NoReturn)]"
    by (simp add: new_effects_def trace_logEvent)
  have b: "perform (with_audit g env) a w = perform env a w"
    by (simp add: perform_def audit_handler)
  have c: "\<exists>event. addOrder (with_audit g env) rawInput w =
           fetchEncounterData env eid
             (set_ui (\<lambda>s. s\<lparr>orderInput := []\<rparr>)
                (emit (Req (Insert ''patient_events'' [event] NoReturn))
                   (emit (Req (Insert ''orders''
                      [OrderNew eid (fst (parse_order env (trim env rawInput)))
                         (snd (parse_order env (trim env rawInput))) ''sent'' (now env (trace w)) None]
                      (ReturnSingle ''*''))) w)))"
    if "selectedEncounterId (ui w) = Some eid" "eid \<noteq> []" "trim env rawInput \<noteq> []"
      "inserted_order env
             (trace w @ [Req (Insert ''orders''
                [OrderNew eid (fst (parse_order env (trim env rawInput)))
                   (snd (parse_order env (trim env rawInput))) ''sent'' (now env (trace w)) None]
                (ReturnSingle ''*''))]) = Resolved (Some row) None"
    using that by (simp add: addOrder_def Let_def case_prod_beta logEvent_eq) blast
  from a b c show ?thesis by simp
qed

text \<open>Claim C4 for an order \<open>cbc\<close> when every audit insert is rejected.\<close>

theorem audit_is_best_effort_witness:
  "selectedEncounterId (ui demo_world) = Some ''e1'' \<and> trim demo_remote ''cbc'' \<noteq> []
   \<and> perform (with_audit (\<lambda>h. Rejected) demo_remote) AddOrder demo_world
       = perform demo_remote AddOrder demo_world
   \<and> (\<exists>event. addOrder (with_audit (\<lambda>h. Rejected) demo_remote) ''cbc'' demo_world =
          fetchEncounterData demo_remote ''e1''
            (set_ui (\<lambda>s. s\<lparr>orderInput := []\<rparr>)
               (emit (Req (Insert ''patient_events'' [event] NoReturn))
                  (emit (Req (Insert ''orders''
                     [OrderNew ''e1'' (Some ''CBC'') ''General Order'' ''sent'' ''t1'' None]
                     (ReturnSingle ''*''))) demo_world))))"
proof -
  have t: "trim demo_remote ''cbc'' = ''cbc''"
    by (simp add: demo_remote_def ascii_trim_def ascii_is_space_def)
  have p: "parse_order demo_remote ''cbc'' = (Some ''CBC'', ''General Order'')"
    by (simp add: parse_order_def demo_remote_def ascii_toUpperCase_def
        ascii_toUpperCase_char_def truthy_def)
  have r: "inserted_order demo_remote h = Resolved (Some demo_order) None" for h
    by (simp add: demo_remote_def)
  show ?thesis
    using audit_is_best_effort [where g = "\<lambda>h. Rejected" and env = demo_remote and a = AddOrder
        and w = demo_world and eid = "''e1''" and rawInput = "''cbc''" and row = demo_order]
    by (simp add: t p r)
qed

lemma parse_order_general:
  "parse_order env val =
     (if first_token val = [] then None else Some (toUpperCase env (first_token val)),
      if remainder val = [] then ''General Order'' else remainder val)"
  using split_space_nonempty [of val] hd_split_space [of val] tl_split_space [of val]
  by (cases "split_space val") (auto simp: parse_order_def truthy_def Let_def)

text \<open>
  Claim C1. For every input string, whatever the built-ins \<open>trim\<close> and \<open>toUpperCase\<close> do:
  if the input trims to the empty string, \<open>addOrder\<close> returns at once, with no effect and
  the state unchanged. Otherwise, with an encounter selected, the first thing \<open>addOrder\<close>
  does is insert one order whose code is the first space-separated token of the trimmed
  input, upper-cased (null if that token is empty), and whose name is the remainder, or
  \<open>General Order\<close> when the remainder is empty. The first token of a non-empty string
  that does not start with a space is not empty, and no result of \<open>s.trim()\<close> starts
  with a space: so the code of an inserted order is never null. The two examples of the
  specification, as the order that is inserted: they hold wherever \<open>trim\<close> leaves a text
  with no white space at its ends alone and \<open>toUpperCase\<close> leaves an upper-case token
  alone.
\<close>

theorem addOrder_parses_input:
  "(trim env rawInput = [] \<longrightarrow> addOrder env rawInput w = (Returned, w))
   \<and> (truthy (selectedEncounterId (ui w)) \<and> trim env rawInput \<noteq> [] \<longrightarrow>
        (\<exists>rest. new_effects w (snd (addOrder env rawInput w)) =
           Req (Insert ''orders''
                  [OrderNew (the (selectedEncounterId (ui w)))
                     (if first_token (trim env rawInput) = [] then None
                      else Some (toUpperCase env (first_token (trim env rawInput))))
                     (if remainder (trim env rawInput) = [] then ''General Order''
                      else remainder (trim env rawInput))
                     ''sent'' (now env (trace w)) None]
                  (ReturnSingle ''*'')) # rest))
   \<and> (trim env rawInput \<noteq> [] \<and> hd (trim env rawInput) \<noteq> CHR '' '' \<longrightarrow>
        first_token (trim env rawInput) \<noteq> [])
   \<and> (truthy (selectedEncounterId (ui w))
        \<and> trim env ''IV001 N/S 500ml'' = ''IV001 N/S 500ml'' \<and> toUpperCase env ''IV001'' = ''IV001''
        \<longrightarrow> (\<exists>rest. new_effects w (snd (addOrder env ''IV001 N/S 500ml'' w)) =
               Req (Insert ''orders''
                      [OrderNew (the (selectedEncounterId (ui w))) (Some ''IV001'') ''N/S 500ml''
                         ''sent'' (now env (trace w)) None]
                      (ReturnSingle ''*'')) # rest))
   \<and> (truthy (selectedEncounterId (ui w))
        \<and> trim env ''CBC'' = ''CBC'' \<and> toUpperCase env ''CBC'' = ''CBC''
        \<longrightarrow> (\<exists>rest. new_effects w (snd (addOrder env ''CBC'' w)) =
               Req (Insert ''orders''
                      [OrderNew (the (selectedEncounterId (ui w))) (Some ''CBC'') ''General Order''
                         ''sent'' (now env (trace w)) None]
                      (ReturnSingle ''*'')) # rest))"
proof -
  have a: "trim env rawInput = [] \<Longrightarrow> addOrder env rawInput w = (Returned, w)"
    by (simp add: addOrder_def split: option.split)
  have b: "\<exists>rest. new_effects w (snd (addOrder env raw w)) =
           Req (Insert ''orders''
                  [OrderNew (the (selectedEncounterId (ui w)))
                     (if first_token (trim env raw) = [] then None
                      else Some (toUpperCase env (first_token (trim env raw))))
                     (if remainder (trim env raw) = [] then ''General Order''
                      else remainder (trim env raw))
                     ''sent'' (now env (trace w)) None]
                  (ReturnSingle ''*'')) # rest"
    if t: "truthy (selectedEncounterId (ui w))" and n: "trim env raw \<noteq> []" for raw
  proof -
    from t obtain eid where e: "selectedEncounterId (ui w) = Some eid" "eid \<noteq> []"
      by (auto simp: truthy_def split: option.splits)
    from addOrder_first_effect [OF e n] e
    show ?thesis by (simp add: parse_order_general)
  qed
  have c: "first_token (trim env rawInput) \<noteq> []"
    if "trim env rawInput \<noteq> []" "hd (trim env rawInput) \<noteq> CHR '' ''"
    using that by (rule first_token_nonempty)
  have d: "\<exists>rest. new_effects w (snd (addOrder env ''IV001 N/S 500ml'' w)) =
               Req (Insert ''orders''
                      [OrderNew (the (selectedEncounterId (ui w))) (Some ''IV001'') ''N/S 500ml''
                         ''sent'' (now env (trace w)) None]
                      (ReturnSingle ''*'')) # rest"
    if "truthy (selectedEncounterId (ui w))" "trim env ''IV001 N/S 500ml'' = ''IV001 N/S 500ml''"
      "toUpperCase env ''IV001'' = ''IV001''"
    using b [of "''IV001 N/S 500ml''"] that by (simp add: first_token_def remainder_def)
  have e: "\<exists>rest. new_effects w (snd (addOrder env ''CBC'' w)) =
               Req (Insert ''orders''
                      [OrderNew (the (selectedEncounterId (ui w))) (Some ''CBC'') ''General Order''
                         ''sent'' (now env (trace w)) None]
                      (ReturnSingle ''*'')) # rest"
    if "truthy (selectedEncounterId (ui w))" "trim env ''CBC'' = ''CBC''"
      "toUpperCase env ''CBC'' = ''CBC''"
    using b [of "''CBC''"] that by (simp add: first_token_def remainder_def)
  from a b [of rawInput] c d e show ?thesis by blast
qed

lemma demo_builtins:
  "trim demo_remote = ascii_trim" "toUpperCase demo_remote = ascii_toUpperCase"
  by (simp_all add: demo_remote_def)

text \<open>
  Claim C1 on a blank input, on an input in lower case with spaces around it and on the
  two examples, where the built-ins are those of ASCII text.
\<close>

theorem addOrder_parses_input_witness:
  "trim demo_remote ''  '' = []
   \<and> addOrder demo_remote ''  '' demo_world = (Returned, demo_world)
   \<and> truthy (selectedEncounterId (ui demo_world))
   \<and> trim demo_remote '' iv001 N/S 500ml '' = ''iv001 N/S 500ml''
   \<and> (\<exists>rest. new_effects demo_world (snd (addOrder demo_remote '' iv001 N/S 500ml '' demo_world)) =
         Req (Insert ''orders'' [OrderNew ''e1'' (Some ''IV001'') ''N/S 500ml'' ''sent'' ''t1'' None]
                (ReturnSingle ''*'')) # rest)
   \<and> (\<exists>rest. new_effects demo_world (snd (addOrder demo_remote ''IV001 N/S 500ml'' demo_world)) =
         Req (Insert ''orders'' [OrderNew ''e1'' (Some ''IV001'') ''N/S 500ml'' ''sent'' ''t1'' None]
                (ReturnSingle ''*'')) # rest)
   \<and> (\<exists>rest. new_effects demo_world (snd (addOrder demo_remote ''CBC'' demo_world)) =
         Req (Insert ''orders'' [OrderNew ''e1'' (Some ''CBC'') ''General Order'' ''sent'' ''t1'' None]
                (ReturnSingle ''*'')) # rest)"
proof -
  have t: "trim demo_remote ''  '' = []"
    "trim demo_remote '' iv001 N/S 500ml '' = ''iv001 N/S 500ml''"
    "trim demo_remote ''IV001 N/S 500ml'' = ''IV001 N/S 500ml''"
    "trim demo_remote ''CBC'' = ''CBC''"
    by (simp_all add: demo_builtins ascii_trim_def ascii_is_space_def)
  have f: "toUpperCase demo_remote (first_token ''iv001 N/S 500ml'') = ''IV001''"
    "first_token ''iv001 N/S 500ml'' \<noteq> []"
    "remainder ''iv001 N/S 500ml'' = ''N/S 500ml''"
    "toUpperCase demo_remote ''IV001'' = ''IV001''"
    "toUpperCase demo_remote ''CBC'' = ''CBC''"
    by (simp_all add: demo_builtins first_token_def remainder_def ascii_toUpperCase_def
        ascii_toUpperCase_char_def)
  show ?thesis
    using addOrder_parses_input [where rawInput = "''  ''" and env = demo_remote and w = demo_world]
      addOrder_parses_input [where rawInput = "'' iv001 N/S 500ml ''" and env = demo_remote
        and w = demo_world]
    by (simp add: t f truthy_def)
qed

lemma addHumanDdx_first_effect:
  assumes "selectedEncounterId (ui w) = Some eid" "eid \<noteq> []" "trim env (ddxName (ui w)) \<noteq> []"
  shows "\<exists>rest. new_effects w (snd (addHumanDdx env w)) =
     Req (Insert ''ddx_entries''
            [DdxNew eid Human (trim env (ddxName (ui w))) (ddx_prob env (ddxProb (ui w)))
               (or_null (trim env (ddxReason (ui w)))) (now env (trace w)) None]
            (ReturnSingle ''*'')) # rest"
proof -
  let ?rq = "Req (Insert ''ddx_entries''
            [DdxNew eid Human (trim env (ddxName (ui w))) (ddx_prob env (ddxProb (ui w)))
               (or_null (trim env (ddxReason (ui w)))) (now env (trace w)) None]
            (ReturnSingle ''*''))"
  let ?t = "trace (snd (addHumanDdx env w))"
  have "length (trace w) < length ?t \<and> ?t ! length (trace w) = ?rq"
    using assms
    by (simp add: addHumanDdx_def Let_def case_prod_beta trace_logEvent nth_fetchEncounterData
        length_fetchEncounterData nth_append split: reply.split option.split)
  then have "drop (length (trace w)) ?t = ?rq # drop (Suc (length (trace w))) ?t"
    using Cons_nth_drop_Suc [of "length (trace w)" ?t] by simp
  then show ?thesis by (simp add: new_effects_def)
qed

lemma ddx_prob_cases:
  "finite_or_null (ddx_prob env raw)"
  "trim env raw = [] \<Longrightarrow> ddx_prob env raw = None"
  "\<not> isFinite (Some (Number env raw)) \<Longrightarrow> ddx_prob env raw = None"
  "trim env raw \<noteq> [] \<Longrightarrow> isFinite (Some (Number env raw)) \<Longrightarrow>
     ddx_prob env raw = Some (Number env raw)"
  by (simp_all add: finite_or_null_ddx_prob) (simp_all add: ddx_prob_def isFinite_def Let_def)

text \<open>
  Claim C10. With an encounter selected and a name that does not trim to empty, the first
  thing \<open>addHumanDdx\<close> does is insert one row into \<open>ddx_entries\<close>, of source human, whose
  \<open>prob\<close> is null or a finite number: null when the text of the probability field trims
  to empty, null when \<open>Number\<close> of that text is NaN or infinite, and that number otherwise.
  And in every world the component can reach, no insert has written a human DDX row whose
  \<open>prob\<close> is NaN or infinite.
\<close>

theorem human_ddx_prob_finite_or_null:
  "(selectedEncounterId (ui w) = Some eid \<and> eid \<noteq> [] \<and> trim env (ddxName (ui w)) \<noteq> [] \<longrightarrow>
      (\<exists>prob rest.
          new_effects w (snd (addHumanDdx env w)) =
            Req (Insert ''ddx_entries''
                   [DdxNew eid Human (trim env (ddxName (ui w))) prob
                      (or_null (trim env (ddxReason (ui w)))) (now env (trace w)) None]
                   (ReturnSingle ''*'')) # rest
          \<and> finite_or_null prob
          \<and> (trim env (ddxProb (ui w)) = [] \<longrightarrow> prob = None)
          \<and> (\<not> isFinite (Some (Number env (ddxProb (ui w)))) \<longrightarrow> prob = None)
          \<and> (trim env (ddxProb (ui w)) \<noteq> [] \<and> isFinite (Some (Number env (ddxProb (ui w))))
               \<longrightarrow> prob = Some (Number env (ddxProb (ui w))))))
   \<and> (reachable env w \<longrightarrow> list_all human_probs_finite (trace w))"
proof -
  have r: "reachable env w \<Longrightarrow> list_all human_probs_finite (trace w)"
    using reachable_clean [of env w] issued_human_probs_finite
    by (auto simp: clean_def list_all_iff)
  have f: "\<exists>prob rest.
          new_effects w (snd (addHumanDdx env w)) =
            Req (Insert ''ddx_entries''
                   [DdxNew eid Human (trim env (ddxName (ui w))) prob
                      (or_null (trim env (ddxReason (ui w)))) (now env (trace w)) None]
                   (ReturnSingle ''*'')) # rest
          \<and> finite_or_null prob
          \<and> (trim env (ddxProb (ui w)) = [] \<longrightarrow> prob = None)
          \<and> (\<not> isFinite (Some (Number env (ddxProb (ui w)))) \<longrightarrow> prob = None)
          \<and> (trim env (ddxProb (ui w)) \<noteq> [] \<and> isFinite (Some (Number env (ddxProb (ui w))))
               \<longrightarrow> prob = Some (Number env (ddxProb (ui w))))"
    if "selectedEncounterId (ui w) = Some eid" "eid \<noteq> []" "trim env (ddxName (ui w)) \<noteq> []"
  proof -
    from addHumanDdx_first_effect [OF that] obtain rest where
      "new_effects w (snd (addHumanDdx env w)) =
         Req (Insert ''ddx_entries''
            [DdxNew eid Human (trim env (ddxName (ui w))) (ddx_prob env (ddxProb (ui w)))
               (or_null (trim env (ddxReason (ui w)))) (now env (trace w)) None]
            (ReturnSingle ''*'')) # rest" by blast
    with ddx_prob_cases [of env "ddxProb (ui w)"] show ?thesis by blast
  qed
  from r f show ?thesis by blast
qed

lemma pat_addHumanDdx [simp]:
  "selectedPatientId (ui (snd (addHumanDdx env w))) = selectedPatientId (ui w)"
  by (simp add: addHumanDdx_def Let_def case_prod_beta split: reply.split option.split)

lemma perform_AddHumanDdx: "perform env AddHumanDdx w = addHumanDdx env w"
  by (simp add: perform_def case_prod_beta run_effects_def Let_def prod_eq_iff)

lemma ddx_typed_state:
  "selectedEncounterId (ui ddx_typed_world) = Some ''e1''"
  "ddxName (ui ddx_typed_world) = ''AMI''"
  "ddxProb (ui ddx_typed_world) = ''abc''"
  "ddxReason (ui ddx_typed_world) = []"
  using demo_loaded_state
  by (simp_all add: ddx_typed_world_def perform_def run_effects_def Let_def)
     (simp_all add: mount_def Let_def encounter_effect_def truthy_def patient_effect_def
        fetchPatients_def fetchEncounterData_def fetchLatestAi_def demo_remote_def
        initial_state_def split: reply.split option.split)

lemma reachable_ddx_added:
  "reachable demo_remote (snd (perform demo_remote AddHumanDdx ddx_typed_world))"
  unfolding ddx_typed_world_def
  by (intro reachable.acted reachable.mounted) simp_all

text \<open>
  Claim C10 for the probability text \<open>abc\<close>, whose conversion is NaN: the row that is
  inserted has a null \<open>prob\<close>, and it is in the trace of a reachable world.
\<close>

theorem human_ddx_prob_finite_or_null_witness:
  "selectedEncounterId (ui ddx_typed_world) = Some ''e1''
   \<and> trim demo_remote (ddxName (ui ddx_typed_world)) \<noteq> []
   \<and> \<not> isFinite (Some (Number demo_remote (ddxProb (ui ddx_typed_world))))
   \<and> (\<exists>rest. new_effects ddx_typed_world (snd (addHumanDdx demo_remote ddx_typed_world)) =
         Req (Insert ''ddx_entries'' [DdxNew ''e1'' Human ''AMI'' None None ''t1'' None]
                (ReturnSingle ''*'')) # rest)
   \<and> reachable demo_remote (snd (perform demo_remote AddHumanDdx ddx_typed_world))
   \<and> Req (Insert ''ddx_entries'' [DdxNew ''e1'' Human ''AMI'' None None ''t1'' None]
            (ReturnSingle ''*''))
        \<in> set (trace (snd (perform demo_remote AddHumanDdx ddx_typed_world)))
   \<and> list_all human_probs_finite (trace (snd (perform demo_remote AddHumanDdx ddx_typed_world)))"
proof -
  let ?rq = "Req (Insert ''ddx_entries'' [DdxNew ''e1'' Human ''AMI'' None None ''t1'' None]
                (ReturnSingle ''*''))"
  have t: "trim demo_remote ''AMI'' = ''AMI''" "trim demo_remote [] = []"
    by (simp_all add: demo_builtins ascii_trim_def ascii_is_space_def)
  have n: "\<not> isFinite (Some (Number demo_remote ''abc''))"
    by (simp add: demo_remote_def isFinite_def)
  have first: "\<exists>rest. new_effects ddx_typed_world (snd (addHumanDdx demo_remote ddx_typed_world))
      = ?rq # rest"
    using human_ddx_prob_finite_or_null [where w = ddx_typed_world and eid = "''e1''"
        and env = demo_remote] n
    by (auto simp: ddx_typed_state t or_null_def)
  then obtain rest where
    "drop (length (trace ddx_typed_world)) (trace (snd (addHumanDdx demo_remote ddx_typed_world)))
      = ?rq # rest"
    by (auto simp: new_effects_def)
  then have "?rq \<in> set (drop (length (trace ddx_typed_world))
      (trace (snd (addHumanDdx demo_remote ddx_typed_world))))" by simp
  then have mem: "?rq \<in> set (trace (snd (perform demo_remote AddHumanDdx ddx_typed_world)))"
    by (simp add: perform_AddHumanDdx in_set_dropD)
  have inv: "list_all human_probs_finite
      (trace (snd (perform demo_remote AddHumanDdx ddx_typed_world)))"
    using human_ddx_prob_finite_or_null
      [where w = "snd (perform demo_remote AddHumanDdx ddx_typed_world)" and env = demo_remote]
      reachable_ddx_added by blast
  from first mem inv reachable_ddx_added n show ?thesis
    by (simp add: ddx_typed_state t)
qed

text \<open>
  Claim C8, amended. From every world, a click on the button of a patient selects that
  patient and sets the selected encounter to null. If an encounter was selected before the
  click, the effect on \<open>selectedEncounterId\<close> runs and empties the views: notes, orders,
  results, DDX, latest AI run, suggestions and ticked suggestions. If none was selected,
  that effect does not run and the views are left as they were.
\<close>

theorem clicking_patient_clears_encounter:
  "selectedPatientId (ui (snd (perform env (ClickPatient pid) w))) = Some pid
   \<and> selectedEncounterId (ui (snd (perform env (ClickPatient pid) w))) = None
   \<and> (selectedEncounterId (ui w) \<noteq> None \<longrightarrow>
        views_empty (ui (snd (perform env (ClickPatient pid) w))))
   \<and> (selectedEncounterId (ui w) = None \<longrightarrow>
        views (ui (snd (perform env (ClickPatient pid) w))) = views (ui w))"
proof -
  let ?w' = "snd (perform env (ClickPatient pid) w)"
  have p: "selectedPatientId (ui ?w') = Some pid"
    by (simp add: perform_def run_effects_def Let_def)
  have e: "selectedEncounterId (ui ?w') = None"
    by (simp add: perform_def run_effects_def Let_def)
  have c: "views_empty (ui ?w')" if "selectedEncounterId (ui w) \<noteq> None"
    using that
    by (auto simp: perform_def run_effects_def Let_def encounter_effect_clears truthy_def)
  have k: "views (ui ?w') = views (ui w)" if "selectedEncounterId (ui w) = None"
    using that by (simp add: perform_def run_effects_def Let_def)
  from p e c k show ?thesis by blast
qed

text \<open>
  Claim C8, amended, for a click on \<open>p1\<close> after the encounter \<open>e1\<close> was opened, and for a
  click on \<open>p1\<close> right after mounting.
\<close>

theorem clicking_patient_clears_encounter_witness:
  "selectedEncounterId (ui (snd (perform demo_remote (ClickEncounter ''e1'') (mount demo_remote))))
     \<noteq> None
   \<and> notes_state (ui (snd (perform demo_remote (ClickEncounter ''e1'') (mount demo_remote))))
       = [demo_note]
   \<and> selectedEncounterId
        (ui (snd (perform demo_remote (ClickPatient ''p1'')
           (snd (perform demo_remote (ClickEncounter ''e1'') (mount demo_remote)))))) = None
   \<and> views_empty
        (ui (snd (perform demo_remote (ClickPatient ''p1'')
           (snd (perform demo_remote (ClickEncounter ''e1'') (mount demo_remote))))))
   \<and> selectedEncounterId (ui (mount demo_remote)) = None
   \<and> views (ui (snd (perform demo_remote (ClickPatient ''p1'') (mount demo_remote))))
       = views (ui (mount demo_remote))"
proof -
  have m: "selectedEncounterId (ui (mount demo_remote)) = None"
    by (simp add: mount_def Let_def initial_state_def)
  show ?thesis
    using clicking_patient_clears_encounter
      [where env = demo_remote and pid = "''p1''"
        and w = "snd (perform demo_remote (ClickEncounter ''e1'') (mount demo_remote))"]
      clicking_patient_clears_encounter
      [where env = demo_remote and pid = "''p1''" and w = "mount demo_remote"]
      demo_loaded_state m
    by simp
qed

lemma reachable_patient_created:
  "reachable demo_remote (snd (perform demo_remote CreatePatient patient_typed_world))"
  unfolding patient_typed_world_def
  by (intro reachable.acted reachable.mounted) simp_all

lemma patient_typed_state:
  "selectedPatientId (ui patient_typed_world) = Some ''p1''"
  "selectedEncounterId (ui patient_typed_world) = Some ''e1''"
  "notes_state (ui patient_typed_world) = [demo_note]"
  "newPatientName (ui patient_typed_world) = ''Lin''"
  by (simp_all add: patient_typed_world_def perform_def run_effects_def Let_def)
     (simp_all add: mount_def Let_def encounter_effect_def truthy_def patient_effect_def
        fetchPatients_def fetchEncounters_def fetchEncounterData_def fetchLatestAi_def
        demo_remote_def demo_run_def or_empty_def initial_state_def
        split: reply.split option.split)

lemma created_patient_selected:
  "selectedPatientId (ui (snd (createPatient demo_remote patient_typed_world))) = Some ''p2''"
proof -
  have t: "trim demo_remote ''Lin'' = ''Lin''"
    by (simp add: demo_builtins ascii_trim_def ascii_is_space_def)
  have i: "inserted_patient demo_remote h = Resolved (Some demo_new_patient) None" for h
    by (simp add: demo_remote_def)
  have f: "fst (fetchPatients demo_remote w) = Returned" for w
    by (simp add: fetchPatients_def demo_remote_def)
  show ?thesis
    by (simp add: createPatient_def Let_def patient_typed_state t i f case_prod_beta
        demo_new_patient_def split: outcome.split)
qed

text \<open>
  Claim C8 as the specification states it does not hold. \<open>createPatient\<close> selects the
  patient it has created (line 357) and leaves the selected encounter alone: from a
  reachable world in which the patient \<open>p1\<close> and the encounter \<open>e1\<close> are selected and
  loaded, it ends with the patient \<open>p2\<close> selected, the encounter \<open>e1\<close> still selected and
  its views still filled. And from a world with no encounter selected whose views are
  filled, a click on a patient leaves them filled.
\<close>

theorem selection_without_clearing:
  "reachable demo_remote (snd (perform demo_remote CreatePatient patient_typed_world))
   \<and> selectedPatientId (ui patient_typed_world) = Some ''p1''
   \<and> selectedPatientId (ui (snd (perform demo_remote CreatePatient patient_typed_world)))
       = Some ''p2''
   \<and> selectedEncounterId (ui (snd (perform demo_remote CreatePatient patient_typed_world)))
       = Some ''e1''
   \<and> \<not> views_empty (ui (snd (perform demo_remote CreatePatient patient_typed_world)))
   \<and> selectedEncounterId (ui stale_world) = None
   \<and> selectedEncounterId (ui (snd (perform demo_remote (ClickPatient ''p1'') stale_world))) = None
   \<and> \<not> views_empty (ui (snd (perform demo_remote (ClickPatient ''p1'') stale_world)))"
proof -
  let ?c = "snd (perform demo_remote CreatePatient patient_typed_world)"
  let ?s = "snd (perform demo_remote (ClickPatient ''p1'') stale_world)"
  have p: "selectedPatientId (ui ?c) = Some ''p2''"
    by (simp add: perform_def case_prod_beta run_effects_def Let_def created_patient_selected)
  have e: "selectedEncounterId (ui ?c) = Some ''e1''"
    by (simp add: perform_def case_prod_beta run_effects_def Let_def created_patient_selected
        patient_typed_state truthy_def)
  have "views (ui ?c) = views (ui patient_typed_world)"
    by (simp add: perform_def case_prod_beta run_effects_def Let_def created_patient_selected
        patient_typed_state truthy_def)
  then have v: "\<not> views_empty (ui ?c)"
    by (simp add: views_empty_iff) (simp add: views_def patient_typed_state)
  have s0: "selectedEncounterId (ui stale_world) = None"
    "notes_state (ui stale_world) = [demo_note]"
    by (simp_all add: stale_world_def demo_world_def initial_state_def)
  have s1: "selectedEncounterId (ui ?s) = None"
    by (simp add: perform_def run_effects_def Let_def)
  have "views (ui ?s) = views (ui stale_world)"
    by (simp add: perform_def run_effects_def Let_def s0)
  then have s2: "\<not> views_empty (ui ?s)"
    by (simp add: views_empty_iff) (simp add: views_def s0)
  from reachable_patient_created patient_typed_state(1) p e v s0(1) s1 s2 show ?thesis by simp
qed

lemma is_console_quiet: "list_all is_console es \<Longrightarrow> \<not> list_ex is_write es \<and> \<not> list_ex is_alert es"
proof (induction es)
  case (Cons e es)
  then show ?case by (cases e) simp_all
qed simp

lemma fetchEncounterData_trace:
  "\<exists>tail. trace (snd (fetchEncounterData env e w)) = trace w @ reload_selects e @ tail
          \<and> list_all is_console tail"
  by (simp add: fetchEncounterData_def Let_def console_error_if_def reload_selects_def
      split: option.split)

lemma fetchEncounterData_returns:
  "selects_resolve env \<Longrightarrow> fst (fetchEncounterData env e w) = Returned"
  by (simp add: fetchEncounterData_def Let_def selects_resolve_def)

lemma fetchLatestAi_trace:
  "\<exists>tail. trace (snd (fetchLatestAi env e w)) = trace w @ latest_run_select e # tail
          \<and> \<not> list_ex is_write tail \<and> \<not> list_ex is_alert tail"
  by (simp add: fetchLatestAi_def Let_def latest_run_select_def
      split: reply.split option.split list.split)

lemma fetchLatestAi_returns:
  "selects_resolve env \<Longrightarrow> fst (fetchLatestAi env e w) = Returned"
  by (auto simp: fetchLatestAi_def Let_def selects_resolve_def
      split: reply.split option.split list.split)

lemma settled_reload:
  "fst (runAi_settle (runAi_reload env e w)) = Returned
   \<and> (\<exists>rest. trace (snd (runAi_settle (runAi_reload env e w))) = trace w @ reload_selects e @ rest
         \<and> \<not> list_ex is_write rest
         \<and> (selects_resolve env \<longrightarrow> latest_run_select e \<in> set rest \<and> \<not> list_ex is_alert rest))"
proof -
  obtain t1 where t1: "trace (snd (fetchEncounterData env e w)) = trace w @ reload_selects e @ t1"
    "list_all is_console t1"
    using fetchEncounterData_trace by blast
  let ?w1 = "snd (fetchEncounterData env e w)"
  obtain t2 where t2: "trace (snd (fetchLatestAi env e ?w1)) = trace ?w1 @ latest_run_select e # t2"
    "\<not> list_ex is_write t2" "\<not> list_ex is_alert t2"
    using fetchLatestAi_trace by blast
  have q: "\<not> list_ex is_write t1" "\<not> list_ex is_alert t1"
    using is_console_quiet [OF t1(2)] by simp_all
  have l: "\<not> is_write (latest_run_select e)" "\<not> is_alert (latest_run_select e)"
    by (simp_all add: latest_run_select_def)
  show ?thesis
  proof (cases "fst (fetchEncounterData env e w)")
    case Thrown
    then have r: "runAi_reload env e w = (Thrown, ?w1)"
      by (simp add: runAi_reload_def case_prod_beta)
    have "\<not> selects_resolve env" using Thrown fetchEncounterData_returns [of env e w] by auto
    then show ?thesis using t1 q by (simp add: r)
  next
    case Returned
    then have r: "runAi_reload env e w = fetchLatestAi env e ?w1"
      by (simp add: runAi_reload_def case_prod_beta)
    show ?thesis
    proof (cases "fst (fetchLatestAi env e ?w1)")
      case Thrown
      then have s: "runAi_settle (runAi_reload env e w) =
          (Returned, set_ui (\<lambda>s. s\<lparr>isAiLoading := False\<rparr>)
             (emit (Alert AiConnectionFailed) (emit ConsoleException (snd (fetchLatestAi env e ?w1)))))"
        by (cases "fetchLatestAi env e ?w1") (simp add: r)
      have "\<not> selects_resolve env" using Thrown fetchLatestAi_returns [of env e ?w1] by auto
      then show ?thesis using t1 t2 q l by (simp add: s)
    next
      case Returned
      then have s: "runAi_settle (runAi_reload env e w) =
          (Returned, set_ui (\<lambda>s. s\<lparr>isAiLoading := False\<rparr>) (snd (fetchLatestAi env e ?w1)))"
        by (cases "fetchLatestAi env e ?w1") (simp add: r)
      show ?thesis using t1 t2 q l by (simp add: s)
    qed
  qed
qed

text \<open>
  Claim C3, amended. After an AI call that succeeded: if the insert into \<open>ai_runs\<close> fails
  (its promise is rejected or it is answered with an error), or if it succeeds and the
  insert into \<open>ai_suggestions\<close> fails, \<open>runAi\<close> returns and the last two things it did are a
  console message and an alert, so nothing is written after the failed insert. If both
  succeed and the insert into \<open>ddx_entries\<close> is answered with an error, the error is
  logged to the console and \<open>runAi\<close> goes on to the reload: the four selects of
  \<open>fetchEncounterData\<close> follow, nothing is written after them and, when no select is
  rejected, the select of the latest AI run follows too and no alert is shown; the insert
  of the suggestions stays in the trace and nothing undoes it. If the promise of the
  insert into \<open>ddx_entries\<close> is rejected instead, \<open>runAi\<close> ends in its \<open>catch\<close> block: a
  console message and the alert of a failed connection, and no reload.
\<close>

theorem ai_persist_failures:
  fixes env :: remote and w :: world and eid :: string
    and data :: "ai_function_result option" and answer :: ai_function_result and row :: ai_run
    and ctx :: ai_context and h1 h2 h3 h4 :: "effect list"
  defines "ctx \<equiv> ai_context_of (ui w) eid"
    and "h1 \<equiv> trace w @ [Req (Invoke ''ai-analyze'' ctx)]"
    and "h2 \<equiv> h1 @ [Req (Insert ''ai_runs''
                 [AiRunNew eid ''gemini'' ''gemini-2.0-flash'' ''completed'' ctx data]
                 (ReturnSingle ''id,encounter_id,provider,model,status,created_at''))]"
    and "h3 \<equiv> h2 @ [Req (Insert ''patient_events''
                 [PatientEventNew eid AiActor ''ai_run_completed'' (Some ''ai_runs'')
                    (Some (run_id row)) (Some ''AI run completed'')
                    [(''provider'', ''gemini''), (''model'', ''gemini-2.0-flash'')]
                    (now env h2)] NoReturn),
               Req (Insert ''ai_suggestions''
                 (diagRows eid (run_id row) answer @ orderRows eid (run_id row) answer)
                 NoReturn)]"
    and "h4 \<equiv> h3 @ [Req (Insert ''ddx_entries''
                 (ddxRows eid (run_id row) answer (now env h3)) NoReturn)]"
  assumes sel: "selectedEncounterId (ui w) = Some eid" "eid \<noteq> []" "\<not> isAiLoading (ui w)"
    and inv: "invoked env h1 = Resolved data None"
  shows "(failed (inserted_ai_run env h2) \<longrightarrow>
           fst (runAi env w) = Returned
           \<and> (\<exists>c a. trace (snd (runAi env w)) = h2 @ [c, Alert a] \<and> \<not> is_write c))
       \<and> (data = Some answer \<and> inserted_ai_run env h2 = Resolved (Some row) None
            \<and> failed (written env h3) \<longrightarrow>
           fst (runAi env w) = Returned
           \<and> (\<exists>c a. trace (snd (runAi env w)) = h3 @ [c, Alert a] \<and> \<not> is_write c))
       \<and> (data = Some answer \<and> inserted_ai_run env h2 = Resolved (Some row) None
            \<and> written env h3 = Resolved d None \<and> written env h4 = Resolved d' (Some e) \<longrightarrow>
           fst (runAi env w) = Returned
           \<and> (\<exists>rest. trace (snd (runAi env w)) =
                  h4 @ ConsoleError ''insert ddx_entries(ai) failed:'' e # reload_selects eid @ rest
                \<and> \<not> list_ex is_write rest
                \<and> (selects_resolve env \<longrightarrow>
                      latest_run_select eid \<in> set rest \<and> \<not> list_ex is_alert rest)))
       \<and> (data = Some answer \<and> inserted_ai_run env h2 = Resolved (Some row) None
            \<and> written env h3 = Resolved d None \<and> written env h4 = Rejected \<longrightarrow>
           fst (runAi env w) = Returned
           \<and> trace (snd (runAi env w)) = h4 @ [ConsoleException, Alert AiConnectionFailed])"
proof -
  let ?w0 = "set_ui (\<lambda>s. s\<lparr>isAiLoading := True, selectedAiOrderSuggestionIds := []\<rparr>) w"
  have r: "runAi env w = runAi_settle (runAi_try env eid ?w0)"
    using sel by (simp add: runAi_def)
  have a: "fst (runAi env w) = Returned
           \<and> (\<exists>c a. trace (snd (runAi env w)) = h2 @ [c, Alert a] \<and> \<not> is_write c)"
    if f: "failed (inserted_ai_run env h2)"
  proof (cases "inserted_ai_run env h2")
    case Rejected
    with inv show ?thesis
      by (simp add: r runAi_try_def Let_def h1_def h2_def ctx_def)
  next
    case (Resolved rr re)
    with f obtain msg where "re = Some msg" by auto
    with Resolved inv show ?thesis
      by (simp add: r runAi_try_def Let_def h1_def h2_def ctx_def)
  qed
  have t: "runAi_try env eid ?w0 =
      runAi_fan_out env eid (run_id row) answer
        (logEvent env
           \<lparr>ev_encounter_id = eid, ev_actor_type = AiActor,
            ev_event_type = ''ai_run_completed'', ev_entity_table = Some ''ai_runs'',
            ev_entity_id = Some (run_id row), ev_summary = Some ''AI run completed'',
            ev_payload = Some [(''provider'', ''gemini''), (''model'', ''gemini-2.0-flash'')],
            ev_occurred_at = None\<rparr>
           (emit (Req (Insert ''ai_runs''
                 [AiRunNew eid ''gemini'' ''gemini-2.0-flash'' ''completed'' ctx data]
                 (ReturnSingle ''id,encounter_id,provider,model,status,created_at'')))
              (emit (Req (Invoke ''ai-analyze'' ctx)) ?w0)))"
    if "data = Some answer" "inserted_ai_run env h2 = Resolved (Some row) None"
    using that inv by (simp add: runAi_try_def Let_def h1_def h2_def ctx_def)
  have b: "fst (runAi env w) = Returned
           \<and> (\<exists>c a. trace (snd (runAi env w)) = h3 @ [c, Alert a] \<and> \<not> is_write c)"
    if d: "data = Some answer" "inserted_ai_run env h2 = Resolved (Some row) None"
      and f: "failed (written env h3)"
  proof (cases "written env h3")
    case Rejected
    then show ?thesis
      by (simp add: r t [OF d] runAi_fan_out_def trace_logEvent h1_def h2_def h3_def ctx_def)
  next
    case (Resolved rr re)
    with f obtain msg where "re = Some msg" by auto
    with Resolved show ?thesis
      by (simp add: r t [OF d] runAi_fan_out_def trace_logEvent h1_def h2_def h3_def ctx_def)
  qed
  have c: "fst (runAi env w) = Returned
           \<and> (\<exists>rest. trace (snd (runAi env w)) =
                  h4 @ ConsoleError ''insert ddx_entries(ai) failed:'' e # reload_selects eid @ rest
                \<and> \<not> list_ex is_write rest
                \<and> (selects_resolve env \<longrightarrow>
                      latest_run_select eid \<in> set rest \<and> \<not> list_ex is_alert rest))"
    if d: "data = Some answer" "inserted_ai_run env h2 = Resolved (Some row) None"
      and s: "written env h3 = Resolved d None" and x: "written env h4 = Resolved d' (Some e)"
  proof -
    define w5 :: world where
      "w5 = \<lparr>ui = (ui w)\<lparr>isAiLoading := True, selectedAiOrderSuggestionIds := []\<rparr>,
             trace = h4 @ [ConsoleError ''insert ddx_entries(ai) failed:'' e]\<rparr>"
    have "runAi_try env eid ?w0 = runAi_reload env eid w5"
      using s x unfolding w5_def
      by (simp add: t [OF d] runAi_fan_out_def trace_logEvent h1_def h2_def h3_def h4_def ctx_def)
         (rule arg_cong [where f = "runAi_reload env eid"], rule world_eqI,
          simp_all add: trace_console_error_if trace_logEvent)
    then have "runAi env w = runAi_settle (runAi_reload env eid w5)" by (simp add: r)
    moreover have "trace w5 = h4 @ [ConsoleError ''insert ddx_entries(ai) failed:'' e]"
      by (simp add: w5_def)
    ultimately show ?thesis using settled_reload [of env eid w5] by simp
  qed
  have x: "fst (runAi env w) = Returned
           \<and> trace (snd (runAi env w)) = h4 @ [ConsoleException, Alert AiConnectionFailed]"
    if d: "data = Some answer" "inserted_ai_run env h2 = Resolved (Some row) None"
      and s: "written env h3 = Resolved d None" and x: "written env h4 = Rejected"
    using s x
    by (simp add: r t [OF d] runAi_fan_out_def trace_logEvent h1_def h2_def h3_def h4_def ctx_def)
  from a b c x show ?thesis by blast
qed


lemma selects_resolve_ddx_failing: "selects_resolve ddx_failing"
  by (simp add: selects_resolve_def ddx_failing_def demo_remote_def)

text \<open>
  Claim C3, amended, in four environments: the insert into \<open>ai_runs\<close> is answered with
  an error, the insert into \<open>ai_suggestions\<close> is, the insert into \<open>ddx_entries\<close> is, and the
  insert into \<open>ddx_entries\<close> is rejected.
\<close>

theorem ai_persist_failures_witness:
  "selectedEncounterId (ui demo_world) = Some ''e1'' \<and> \<not> isAiLoading (ui demo_world)
   \<and> fst (runAi ai_runs_failing demo_world) = Returned
   \<and> list_ex is_alert (trace (snd (runAi ai_runs_failing demo_world)))
   \<and> length (filter is_write (trace (snd (runAi ai_runs_failing demo_world)))) = 1
   \<and> fst (runAi suggestions_failing demo_world) = Returned
   \<and> list_ex is_alert (trace (snd (runAi suggestions_failing demo_world)))
   \<and> length (filter is_write (trace (snd (runAi suggestions_failing demo_world)))) = 3
   \<and> fst (runAi ddx_failing demo_world) = Returned
   \<and> ConsoleError ''insert ddx_entries(ai) failed:'' ''denied''
        \<in> set (trace (snd (runAi ddx_failing demo_world)))
   \<and> set (reload_selects ''e1'') \<subseteq> set (trace (snd (runAi ddx_failing demo_world)))
   \<and> latest_run_select ''e1'' \<in> set (trace (snd (runAi ddx_failing demo_world)))
   \<and> \<not> list_ex is_alert (trace (snd (runAi ddx_failing demo_world)))
   \<and> length (filter is_write (trace (snd (runAi ddx_failing demo_world)))) = 4
   \<and> fst (runAi ddx_rejecting demo_world) = Returned
   \<and> list_ex is_alert (trace (snd (runAi ddx_rejecting demo_world)))
   \<and> \<not> list_ex is_select (trace (snd (runAi ddx_rejecting demo_world)))
   \<and> length (filter is_write (trace (snd (runAi ddx_rejecting demo_world)))) = 4"
proof -
  have fa: "invoked ai_runs_failing h = Resolved (Some demo_answer) None"
    "inserted_ai_run ai_runs_failing h = Resolved None (Some ''denied'')" for h
    by (simp_all add: ai_runs_failing_def demo_remote_def)
  have fb: "invoked suggestions_failing h = Resolved (Some demo_answer) None"
    "inserted_ai_run suggestions_failing h = Resolved (Some demo_run) None"
    "written suggestions_failing h = Resolved None (Some ''denied'')" for h
    by (simp_all add: suggestions_failing_def demo_remote_def)
  have fc: "invoked ddx_failing h = Resolved (Some demo_answer) None"
    "inserted_ai_run ddx_failing h = Resolved (Some demo_run) None"
    "written ddx_failing h =
       (case last h of
          Req (Insert t rows r) \<Rightarrow>
            if t = ''ddx_entries'' then Resolved None (Some ''denied'') else Resolved None None
        | e \<Rightarrow> Resolved None None)" for h
    by (simp_all add: ddx_failing_def demo_remote_def)
  have fd: "invoked ddx_rejecting h = Resolved (Some demo_answer) None"
    "inserted_ai_run ddx_rejecting h = Resolved (Some demo_run) None"
    "written ddx_rejecting h =
       (case last h of
          Req (Insert t rows r) \<Rightarrow>
            if t = ''ddx_entries'' then Rejected else Resolved None None
        | e \<Rightarrow> Resolved None None)" for h
    by (simp_all add: ddx_rejecting_def demo_remote_def)
  have s: "selectedEncounterId (ui demo_world) = Some ''e1''" "\<not> isAiLoading (ui demo_world)"
    "trace demo_world = []"
    by (simp_all add: demo_world_def initial_state_def)
  have a: "fst (runAi ai_runs_failing demo_world) = Returned
     \<and> list_ex is_alert (trace (snd (runAi ai_runs_failing demo_world)))
     \<and> length (filter is_write (trace (snd (runAi ai_runs_failing demo_world)))) = 1"
    using ai_persist_failures [where env = ai_runs_failing and w = demo_world and eid = "''e1''"
        and data = "Some demo_answer" and answer = demo_answer and row = demo_run]
    by (auto simp: fa s)
  have b: "fst (runAi suggestions_failing demo_world) = Returned
     \<and> list_ex is_alert (trace (snd (runAi suggestions_failing demo_world)))
     \<and> length (filter is_write (trace (snd (runAi suggestions_failing demo_world)))) = 3"
    using ai_persist_failures [where env = suggestions_failing and w = demo_world
        and eid = "''e1''" and data = "Some demo_answer" and answer = demo_answer
        and row = demo_run]
    by (auto simp: fb s)
  have c: "fst (runAi ddx_failing demo_world) = Returned
     \<and> ConsoleError ''insert ddx_entries(ai) failed:'' ''denied''
          \<in> set (trace (snd (runAi ddx_failing demo_world)))
     \<and> set (reload_selects ''e1'') \<subseteq> set (trace (snd (runAi ddx_failing demo_world)))
     \<and> latest_run_select ''e1'' \<in> set (trace (snd (runAi ddx_failing demo_world)))
     \<and> \<not> list_ex is_alert (trace (snd (runAi ddx_failing demo_world)))
     \<and> length (filter is_write (trace (snd (runAi ddx_failing demo_world)))) = 4"
    using ai_persist_failures [where env = ddx_failing and w = demo_world
          and eid = "''e1''" and data = "Some demo_answer" and answer = demo_answer
          and row = demo_run and d = None and d' = None and e = "''denied''"]
    by (auto simp: fc s selects_resolve_ddx_failing reload_selects_def list_ex_iff
        filter_empty_conv)
  have d: "fst (runAi ddx_rejecting demo_world) = Returned
     \<and> list_ex is_alert (trace (snd (runAi ddx_rejecting demo_world)))
     \<and> \<not> list_ex is_select (trace (snd (runAi ddx_rejecting demo_world)))
     \<and> length (filter is_write (trace (snd (runAi ddx_rejecting demo_world)))) = 4"
    using ai_persist_failures [where env = ddx_rejecting and w = demo_world
          and eid = "''e1''" and data = "Some demo_answer" and answer = demo_answer
          and row = demo_run and d = None]
    by (simp add: fd s)
  from s a b c d show ?thesis by blast
qed

text \<open>
  Claim C3 as the specification states it does not hold. When the AI call and the inserts
  into \<open>ai_runs\<close> and \<open>ai_suggestions\<close> succeed and the promise of the insert into
  \<open>ddx_entries\<close> is rejected, that failure is not tolerated: \<open>runAi\<close> shows an alert and
  issues no select, so the reload does not run.
\<close>

theorem rejected_ddx_insert_not_tolerated:
  "selectedEncounterId (ui demo_world) = Some ''e1'' \<and> \<not> isAiLoading (ui demo_world)
   \<and> invoked ddx_rejecting [Req (Invoke ''ai-analyze'' (ai_context_of (ui demo_world) ''e1''))]
       = Resolved (Some demo_answer) None
   \<and> fst (runAi ddx_rejecting demo_world) = Returned
   \<and> trace (snd (runAi ddx_rejecting demo_world)) =
         [Req (Invoke ''ai-analyze'' (ai_context_of (ui demo_world) ''e1'')),
          Req (Insert ''ai_runs''
                 [AiRunNew ''e1'' ''gemini'' ''gemini-2.0-flash'' ''completed''
                    (ai_context_of (ui demo_world) ''e1'') (Some demo_answer)]
                 (ReturnSingle ''id,encounter_id,provider,model,status,created_at'')),
          Req (Insert ''patient_events''
                 [PatientEventNew ''e1'' AiActor ''ai_run_completed'' (Some ''ai_runs'')
                    (Some ''run1'') (Some ''AI run completed'')
                    [(''provider'', ''gemini''), (''model'', ''gemini-2.0-flash'')] ''t1'']
                 NoReturn),
          Req (Insert ''ai_suggestions''
                 (diagRows ''e1'' ''run1'' demo_answer @ orderRows ''e1'' ''run1'' demo_answer)
                 NoReturn),
          Req (Insert ''ddx_entries'' (ddxRows ''e1'' ''run1'' demo_answer ''t1'') NoReturn),
          ConsoleException, Alert AiConnectionFailed]
   \<and> failed (written ddx_rejecting
               (butlast (butlast (trace (snd (runAi ddx_rejecting demo_world))))))
   \<and> \<not> failed (written ddx_rejecting
               (butlast (butlast (butlast (trace (snd (runAi ddx_rejecting demo_world)))))))
   \<and> list_ex is_alert (trace (snd (runAi ddx_rejecting demo_world)))
   \<and> \<not> list_ex is_select (trace (snd (runAi ddx_rejecting demo_world)))"
proof -
  have t: "runAi ddx_rejecting demo_world =
     (Returned,
      \<lparr>ui = (ui demo_world)\<lparr>isAiLoading := False, selectedAiOrderSuggestionIds := []\<rparr>,
       trace =
         [Req (Invoke ''ai-analyze'' (ai_context_of (ui demo_world) ''e1'')),
          Req (Insert ''ai_runs''
                 [AiRunNew ''e1'' ''gemini'' ''gemini-2.0-flash'' ''completed''
                    (ai_context_of (ui demo_world) ''e1'') (Some demo_answer)]
                 (ReturnSingle ''id,encounter_id,provider,model,status,created_at'')),
          Req (Insert ''patient_events''
                 [PatientEventNew ''e1'' AiActor ''ai_run_completed'' (Some ''ai_runs'')
                    (Some ''run1'') (Some ''AI run completed'')
                    [(''provider'', ''gemini''), (''model'', ''gemini-2.0-flash'')] ''t1'']
                 NoReturn),
          Req (Insert ''ai_suggestions''
                 (diagRows ''e1'' ''run1'' demo_answer @ orderRows ''e1'' ''run1'' demo_answer)
                 NoReturn),
          Req (Insert ''ddx_entries'' (ddxRows ''e1'' ''run1'' demo_answer ''t1'') NoReturn),
          ConsoleException, Alert AiConnectionFailed]\<rparr>)"
    by (simp add: runAi_def runAi_try_def runAi_fan_out_def logEvent_eq Let_def
        ddx_rejecting_def demo_remote_def demo_world_def initial_state_def demo_run_def
        set_ui_def emit_def ai_context_of_def)
  have s: "selectedEncounterId (ui demo_world) = Some ''e1''" "\<not> isAiLoading (ui demo_world)"
    by (simp_all add: demo_world_def initial_state_def)
  have i: "invoked ddx_rejecting h = Resolved (Some demo_answer) None" for h
    by (simp add: ddx_rejecting_def demo_remote_def)
  have w: "written ddx_rejecting h =
       (case last h of
          Req (Insert t rows r) \<Rightarrow>
            if t = ''ddx_entries'' then Rejected else Resolved None None
        | e \<Rightarrow> Resolved None None)" for h
    by (simp add: ddx_rejecting_def demo_remote_def)
  show ?thesis by (simp add: t s i w)
qed

end
